theory Spec2Isabelle
  imports Main
begin

section \<open>The list view of the file manager: data model\<close>

text \<open>
  The development follows \<^verbatim>\<open>src/nautilus-list-view.c\<close>. Objects of the widget toolkit are
  represented by the part of their state the file reads or writes; helpers of other
  translation units are arguments of the functions that call them.
\<close>

type_synonym GQuark = nat

text \<open>A column of the registry (\<^verbatim>\<open>NautilusColumn\<close>), by the properties the file reads.\<close>

record NautilusColumn =
  name :: string
  label :: string
  attribute :: string
  attribute_q :: GQuark

text \<open>\<^verbatim>\<open>SortData\<close>: the user data of a column's custom sorter. Its \<^verbatim>\<open>view\<close> pointer is
  the state that the functions below pass along.\<close>

record SortData =
  sort_attribute :: GQuark

text \<open>
  A column object of the toolkit, as \<^verbatim>\<open>setup_view_columns\<close> configures it. Every column
  gets a list item factory of its own, so two column objects are the same object exactly
  when the records are equal.
\<close>

record GtkColumnViewColumn =
  factory :: nat
  title :: string
  sorter :: SortData
  expand :: bool
  resizable :: bool

text \<open>The fields of \<^verbatim>\<open>struct _NautilusListView\<close> that the modelled functions use;
  \<^verbatim>\<open>view_ui\<close> is the list of columns attached to the column view, in display order.\<close>

record NautilusListView =
  view_ui :: "GtkColumnViewColumn list"
  zoom_level :: int
  directories_first :: bool
  star_column :: "GtkColumnViewColumn option"
  factory_to_column_map :: "nat \<rightharpoonup> NautilusColumn"
  all_view_columns_hash :: "string \<rightharpoonup> GtkColumnViewColumn"
  column_header_was_clicked :: bool
  clicked_column_attribute_q :: GQuark

text \<open>
  The directory shown, as a file: its location, the two predicates the defaults depend on,
  the list-valued metadata by key (\<open>None\<close> is a \<^verbatim>\<open>NULL\<close> list), and the sort metadata:
  the arguments of the last call of \<^verbatim>\<open>set_directory_sort_metadata\<close> for it, \<open>None\<close> before
  the first call.
\<close>

datatype metadata_key =
  NAUTILUS_METADATA_KEY_LIST_VIEW_VISIBLE_COLUMNS
| NAUTILUS_METADATA_KEY_LIST_VIEW_COLUMN_ORDER

record NautilusFile =
  location :: string
  is_in_trash :: bool
  is_in_recent :: bool
  metadata_list :: "metadata_key \<Rightarrow> string list option"
  sort_metadata :: "(string \<times> bool) option"

text \<open>The keys of the list view's settings that the file reads or writes.\<close>

record preferences =
  default_visible_columns :: "string list"
  default_column_order :: "string list"
  default_zoom_level :: int

text \<open>Everything the callbacks of one view act on: the view, the directory it shows, the
  settings, the state of the two stateful actions, and the last sort request made to the
  column view (\<^verbatim>\<open>gtk_column_view_sort_by_column\<close>).\<close>

record world =
  self :: NautilusListView
  directory_as_file :: NautilusFile
  model_is_search_directory :: bool
  query_location :: string
  list_view_preferences :: preferences
  sort_action_state :: "string \<times> bool"
  zoom_action_state :: int
  sort_by_column :: "(GtkColumnViewColumn option \<times> bool) option"

section \<open>Zoom levels\<close>

text \<open>
  The enumeration constants \<^verbatim>\<open>NAUTILUS_LIST_ZOOM_LEVEL_SMALL\<close>, \<^verbatim>\<open>..._MEDIUM\<close> and
  \<^verbatim>\<open>..._LARGE\<close> are declared in a header; the functions take them as the arguments \<open>SMALL\<close>,
  \<open>MEDIUM\<close> and \<open>LARGE\<close>. The field \<^verbatim>\<open>zoom_level\<close>, the stored preference and the state of the
  action are \<^verbatim>\<open>int\<close>s of 32 bits. A variable of the type \<^verbatim>\<open>NautilusListZoomLevel\<close>, an
  enumeration without negative constants, is an \<^verbatim>\<open>unsigned int\<close> for the compilers the
  program is built with, and so is the parameter of \<^verbatim>\<open>set_zoom_level\<close>. A value that moves
  from one kind to the other keeps its 32 bits; a comparison of an unsigned value with a
  constant compares both as unsigned values.
\<close>

definition to_guint :: "int \<Rightarrow> int" where
  "to_guint x = x mod 2 ^ 32"

definition to_gint :: "int \<Rightarrow> int" where
  "to_gint x = (if x mod 2 ^ 32 < 2 ^ 31 then x mod 2 ^ 32 else x mod 2 ^ 32 - 2 ^ 32)"

definition CLAMP :: "int \<Rightarrow> int \<Rightarrow> int \<Rightarrow> int" where
  \<comment> \<open>\<^verbatim>\<open>(((x) > (high)) ? (high) : (((x) < (low)) ? (low) : (x)))\<close>\<close>
  "CLAMP x low high = (if x > high then high else if x < low then low else x)"

definition get_default_zoom_level :: "int \<Rightarrow> int \<Rightarrow> preferences \<Rightarrow> int" where
  \<comment> \<open>the local variable is of the enumeration type; the function returns \<^verbatim>\<open>gint\<close>\<close>
  "get_default_zoom_level SMALL LARGE p =
     (let default_zoom_level = to_guint (default_zoom_level p)
      in to_gint (CLAMP default_zoom_level (to_guint SMALL) (to_guint LARGE)))"

definition set_zoom_level :: "int \<Rightarrow> world \<Rightarrow> world" where
  \<comment> \<open>\<open>new_level\<close> is a \<^verbatim>\<open>guint\<close>; the icon size, the CSS class and the toolbar are widget
      state outside \<open>world\<close>\<close>
  "set_zoom_level new_level w = w\<lparr>self := (self w)\<lparr>zoom_level := to_gint new_level\<rparr>\<rparr>"

definition action_zoom_to_level :: "int \<Rightarrow> world \<Rightarrow> world" where
  \<comment> \<open>\<open>state\<close> is the \<^verbatim>\<open>int32\<close> that the action is given\<close>
  "action_zoom_to_level state w =
     (let w1 = set_zoom_level (to_guint state) w;
          w2 = w1\<lparr>zoom_action_state := state\<rparr>
      in if default_zoom_level (list_view_preferences w2) \<noteq> state
         then w2\<lparr>list_view_preferences := (list_view_preferences w2)\<lparr>default_zoom_level := state\<rparr>\<rparr>
         else w2)"

definition real_bump_zoom_level :: "int \<Rightarrow> int \<Rightarrow> int \<Rightarrow> world \<Rightarrow> world" where
  \<comment> \<open>\<open>new_level\<close> is of the enumeration type: it holds the 32 bits of the sum. Changing
      the state of the action \<^verbatim>\<open>zoom-to-level\<close> runs \<open>action_zoom_to_level\<close>.\<close>
  "real_bump_zoom_level SMALL LARGE zoom_increment w =
     (let new_level = to_guint (zoom_level (self w) + zoom_increment)
      in if new_level \<ge> to_guint SMALL \<and> new_level \<le> to_guint LARGE
         then action_zoom_to_level (to_gint new_level) w
         else w)"

definition real_restore_standard_zoom_level :: "int \<Rightarrow> world \<Rightarrow> world" where
  "real_restore_standard_zoom_level MEDIUM w = action_zoom_to_level MEDIUM w"

definition real_can_zoom_in :: "int \<Rightarrow> world \<Rightarrow> bool" where
  "real_can_zoom_in LARGE w = (zoom_level (self w) < LARGE)"

definition real_can_zoom_out :: "int \<Rightarrow> world \<Rightarrow> bool" where
  "real_can_zoom_out SMALL w = (zoom_level (self w) > SMALL)"

text \<open>The last step of \<^verbatim>\<open>nautilus_list_view_init\<close>: the zoom level of a new view.\<close>

definition init_zoom_level :: "int \<Rightarrow> int \<Rightarrow> world \<Rightarrow> world" where
  "init_zoom_level SMALL LARGE w =
     (let w1 = w\<lparr>self := (self w)\<lparr>zoom_level :=
                  get_default_zoom_level SMALL LARGE (list_view_preferences w)\<rparr>\<rparr>
      in action_zoom_to_level (zoom_level (self w1)) w1)"

text \<open>What can change the zoom level of a view after its initialisation: an increment, the
  return to the standard level, and a new state for the action \<^verbatim>\<open>zoom-to-level\<close>. A view
  serves a list of such requests from its first.\<close>

datatype zoom_request = Bump int | Restore_standard | Zoom_to_level int

fun serve_zoom_request :: "int \<Rightarrow> int \<Rightarrow> int \<Rightarrow> zoom_request \<Rightarrow> world \<Rightarrow> world" where
  "serve_zoom_request SMALL MEDIUM LARGE (Bump zoom_increment) w =
     real_bump_zoom_level SMALL LARGE zoom_increment w"
| "serve_zoom_request SMALL MEDIUM LARGE Restore_standard w =
     real_restore_standard_zoom_level MEDIUM w"
| "serve_zoom_request SMALL MEDIUM LARGE (Zoom_to_level state) w = action_zoom_to_level state w"

fun serve_zoom_requests :: "int \<Rightarrow> int \<Rightarrow> int \<Rightarrow> zoom_request list \<Rightarrow> world \<Rightarrow> world" where
  "serve_zoom_requests SMALL MEDIUM LARGE [] w = w"
| "serve_zoom_requests SMALL MEDIUM LARGE (r # rs) w =
     serve_zoom_requests SMALL MEDIUM LARGE rs (serve_zoom_request SMALL MEDIUM LARGE r w)"

section \<open>Sorting\<close>

text \<open>
  An item of the view model: the object itself (\<open>item_ptr\<close>, its address) and the file it
  shows, \<open>None\<close> when \<^verbatim>\<open>nautilus_view_item_get_file\<close> gives \<^verbatim>\<open>NULL\<close>. The file type
  \<open>'f\<close> is left open: the list view hands files to helpers only.
\<close>

record 'f NautilusViewItem =
  item_ptr :: nat
  item_file :: "'f option"

datatype GtkOrdering = GTK_ORDERING_SMALLER | GTK_ORDERING_EQUAL | GTK_ORDERING_LARGER

text \<open>The comparison callbacks return \<^verbatim>\<open>gint\<close>; the toolkit's enumeration has the values
  \<open>-1\<close>, \<open>0\<close> and \<open>1\<close>, and a custom sorter maps the callback's result back by its sign.\<close>

fun ordering_int :: "GtkOrdering \<Rightarrow> int" where
  "ordering_int GTK_ORDERING_SMALLER = -1"
| "ordering_int GTK_ORDERING_EQUAL = 0"
| "ordering_int GTK_ORDERING_LARGER = 1"

definition gtk_ordering_from_cmpfunc :: "int \<Rightarrow> GtkOrdering" where
  "gtk_ordering_from_cmpfunc r =
     (if r > 0 then GTK_ORDERING_LARGER
      else if r < 0 then GTK_ORDERING_SMALLER else GTK_ORDERING_EQUAL)"

fun invert_ordering :: "GtkOrdering \<Rightarrow> GtkOrdering" where
  "invert_ordering GTK_ORDERING_SMALLER = GTK_ORDERING_LARGER"
| "invert_ordering GTK_ORDERING_EQUAL = GTK_ORDERING_EQUAL"
| "invert_ordering GTK_ORDERING_LARGER = GTK_ORDERING_SMALLER"

text \<open>
  One invocation of \<^verbatim>\<open>nautilus_file_compare_for_sort_by_attribute_q\<close>, by its arguments:
  the two files, the attribute, \<^verbatim>\<open>directories_first\<close> and \<^verbatim>\<open>reversed\<close>.
\<close>

type_synonym 'f compare_call = "'f \<times> 'f \<times> GQuark \<times> bool \<times> bool"

text \<open>
  The comparator of a column. The file comparison is the argument \<open>cmp\<close>. The result is
  the value returned, the view after the call, and the invocations of \<open>cmp\<close> made.
  \<^verbatim>\<open>g_return_val_if_fail\<close> returns its second argument when the condition fails.
\<close>

definition nautilus_list_view_sort ::
  "('f \<Rightarrow> 'f \<Rightarrow> GQuark \<Rightarrow> bool \<Rightarrow> bool \<Rightarrow> int) \<Rightarrow>
   'f NautilusViewItem \<Rightarrow> 'f NautilusViewItem \<Rightarrow> SortData \<Rightarrow> NautilusListView \<Rightarrow>
   int \<times> NautilusListView \<times> 'f compare_call list" where
  "nautilus_list_view_sort cmp a b data view =
     (let attribute_q = sort_attribute data;
          file_a = item_file a;
          file_b = item_file b;
          view1 = (if clicked_column_attribute_q view = 0 \<and> column_header_was_clicked view
                   then view\<lparr>clicked_column_attribute_q := attribute_q\<rparr>
                   else view)
      in case (file_a, file_b) of
           (Some fa, Some fb) \<Rightarrow>
             (cmp fa fb attribute_q False False, view1, [(fa, fb, attribute_q, False, False)])
         | _ \<Rightarrow> (ordering_int GTK_ORDERING_EQUAL, view1, []))"

text \<open>The comparator of the directories sorter; \<open>is_directory\<close> is
  \<^verbatim>\<open>nautilus_file_is_directory\<close>, applied to the file pointer as it is.\<close>

definition sort_directories_func ::
  "('f option \<Rightarrow> bool) \<Rightarrow> bool \<Rightarrow> 'f NautilusViewItem \<Rightarrow> 'f NautilusViewItem \<Rightarrow> int" where
  "sort_directories_func is_directory dirs_first a b =
     (if dirs_first
      then (let a_is_directory = is_directory (item_file a);
                b_is_directory = is_directory (item_file b)
            in if a_is_directory \<and> \<not> b_is_directory then ordering_int GTK_ORDERING_SMALLER
               else if b_is_directory \<and> \<not> a_is_directory then ordering_int GTK_ORDERING_LARGER
               else ordering_int GTK_ORDERING_EQUAL)
      else ordering_int GTK_ORDERING_EQUAL)"

text \<open>
  The sorter of the column view tries the sorters of its sort columns in turn, the column
  clicked last first, inverts the result of a column sorted in descending order, and stops at
  the first result that is not equal. Each column's sorter is the custom sorter that
  \<^verbatim>\<open>setup_view_columns\<close> creates around \<open>nautilus_list_view_sort\<close>. A sorter never calls its
  comparison on one and the same object.
\<close>

fun column_view_sorter_compare ::
  "('f \<Rightarrow> 'f \<Rightarrow> GQuark \<Rightarrow> bool \<Rightarrow> bool \<Rightarrow> int) \<Rightarrow> (SortData \<times> bool) list \<Rightarrow>
   'f NautilusViewItem \<Rightarrow> 'f NautilusViewItem \<Rightarrow> NautilusListView \<Rightarrow>
   GtkOrdering \<times> NautilusListView" where
  "column_view_sorter_compare cmp [] a b view = (GTK_ORDERING_EQUAL, view)"
| "column_view_sorter_compare cmp ((data, inverted) # rest) a b view =
     (let res = nautilus_list_view_sort cmp a b data view;
          r = gtk_ordering_from_cmpfunc (fst res);
          r' = (if inverted then invert_ordering r else r)
      in if r' \<noteq> GTK_ORDERING_EQUAL then (r', fst (snd res))
         else column_view_sorter_compare cmp rest a b (fst (snd res)))"

text \<open>
  The sorter that \<^verbatim>\<open>nautilus_list_view_init\<close> installs on the model: a multi sorter with
  the directories sorter appended first and the column view's sorter second. A multi sorter
  asks its sorters in the order in which they were appended and returns the first result that
  is not equal. The directories sorter reads \<^verbatim>\<open>self->directories_first\<close> at each call.
\<close>

definition list_view_sorter_compare ::
  "('f \<Rightarrow> 'f \<Rightarrow> GQuark \<Rightarrow> bool \<Rightarrow> bool \<Rightarrow> int) \<Rightarrow> ('f option \<Rightarrow> bool) \<Rightarrow>
   (SortData \<times> bool) list \<Rightarrow> 'f NautilusViewItem \<Rightarrow> 'f NautilusViewItem \<Rightarrow>
   NautilusListView \<Rightarrow> GtkOrdering \<times> NautilusListView" where
  "list_view_sorter_compare cmp is_directory sort_columns a b view =
     (if item_ptr a = item_ptr b then (GTK_ORDERING_EQUAL, view)
      else (let r = gtk_ordering_from_cmpfunc
                      (sort_directories_func is_directory (directories_first view) a b)
            in if r \<noteq> GTK_ORDERING_EQUAL then (r, view)
               else column_view_sorter_compare cmp sort_columns a b view))"

text \<open>
  The handler of the sorter's \<^verbatim>\<open>changed\<close> signal. \<open>model\<close> is the list of the items of the
  view model and \<open>sort_columns\<close> the sort columns of the column view at the time of the
  signal. The dummy item is a new object, so its address differs from the item's.
\<close>

definition nautilus_view_item_new :: "nat \<Rightarrow> 'f option \<Rightarrow> 'f NautilusViewItem" where
  "nautilus_view_item_new ptr f = \<lparr>item_ptr = ptr, item_file = f\<rparr>"

definition on_sorter_changed ::
  "('f \<Rightarrow> 'f \<Rightarrow> GQuark \<Rightarrow> bool \<Rightarrow> bool \<Rightarrow> int) \<Rightarrow> ('f option \<Rightarrow> bool) \<Rightarrow>
   (SortData \<times> bool) list \<Rightarrow> 'f NautilusViewItem list \<Rightarrow> NautilusListView \<Rightarrow>
   NautilusListView" where
  "on_sorter_changed cmp is_directory sort_columns model view =
     (let view1 = view\<lparr>column_header_was_clicked := True, clicked_column_attribute_q := 0\<rparr>
      in if length model = 1
         then (let item = model ! 0;
                   dummy_item = nautilus_view_item_new (Suc (item_ptr item)) (item_file item)
               in snd (list_view_sorter_compare cmp is_directory sort_columns
                         item dummy_item view1))
         else view1)"

section \<open>Column settings\<close>

text \<open>Helpers of other files of the program that the list view calls, under their names.\<close>

record helpers =
  nautilus_get_all_columns :: "NautilusColumn list"
  nautilus_get_columns_for_file :: "NautilusFile \<Rightarrow> NautilusColumn list"
  nautilus_sort_columns :: "NautilusColumn list \<Rightarrow> string list option \<Rightarrow> NautilusColumn list"
  nautilus_tag_manager_can_star_contents :: "string \<Rightarrow> bool"
  nautilus_is_starred_directory :: "string \<Rightarrow> bool"
  get_sorts_type_from_metadata_text :: "string \<Rightarrow> nat"
  g_quark_to_string :: "GQuark \<Rightarrow> string"

definition default_columns_for_recent :: "string list" where
  "default_columns_for_recent = [''name'', ''size'', ''recency'']"

definition default_columns_for_trash :: "string list" where
  "default_columns_for_trash = [''name'', ''size'', ''trashed_on'']"

text \<open>\<^verbatim>\<open>g_ascii_strdown\<close> with length \<open>-1\<close>: the letters \<^verbatim>\<open>A\<close> to \<^verbatim>\<open>Z\<close> become lower
  case, every other byte stays.\<close>

definition g_ascii_tolower :: "char \<Rightarrow> char" where
  "g_ascii_tolower c =
     (if (65::nat) \<le> of_char c \<and> of_char c \<le> (90::nat)
      then char_of (of_char c + (32::nat)) else c)"

definition g_ascii_strdown :: "string \<Rightarrow> string" where
  "g_ascii_strdown str = map g_ascii_tolower str"

text \<open>Removing a column from the column view, and inserting one at a position: a column
  that is attached already is moved there. A position beyond the end fails the
  precondition of the call, which then does nothing further.\<close>

definition gtk_column_view_remove_column ::
  "GtkColumnViewColumn list \<Rightarrow> GtkColumnViewColumn \<Rightarrow> GtkColumnViewColumn list" where
  "gtk_column_view_remove_column cols c = remove1 c cols"

definition gtk_column_view_insert_column ::
  "GtkColumnViewColumn list \<Rightarrow> nat \<Rightarrow> GtkColumnViewColumn \<Rightarrow> GtkColumnViewColumn list" where
  "gtk_column_view_insert_column cols position c =
     (if position > length cols then cols
      else (let cols1 = (if c \<in> set cols then remove1 c cols else cols)
            in if position > length cols1 then cols1
               else take position cols1 @ c # drop position cols1))"

text \<open>The hash table of the names to show. Its values are copies of the keys, so a lookup
  is \<^verbatim>\<open>NULL\<close> exactly for a key that is absent.\<close>

fun insert_visible_columns :: "string list \<Rightarrow> (string \<rightharpoonup> string) \<Rightarrow> (string \<rightharpoonup> string)" where
  "insert_visible_columns [] hash = hash"
| "insert_visible_columns (v # vs) hash =
     insert_visible_columns vs (hash(g_ascii_strdown v \<mapsto> g_ascii_strdown v))"

definition visible_columns_hash ::
  "helpers \<Rightarrow> string \<Rightarrow> string list option \<Rightarrow> (string \<rightharpoonup> string)" where
  "visible_columns_hash h loc visible_columns =
     (let hash0 = Map.empty(''name'' \<mapsto> ''name'');
          hash1 = (if nautilus_tag_manager_can_star_contents h loc \<or>
                      nautilus_is_starred_directory h loc
                   then hash0(''starred'' \<mapsto> ''starred'') else hash0)
      in case visible_columns of
           None \<Rightarrow> hash1
         | Some vs \<Rightarrow> insert_visible_columns vs hash1)"

text \<open>The loop over the sorted columns of the registry; it prepends to \<open>view_columns\<close>.\<close>

fun collect_view_columns ::
  "NautilusListView \<Rightarrow> (string \<rightharpoonup> string) \<Rightarrow> NautilusColumn list \<Rightarrow>
   GtkColumnViewColumn list \<Rightarrow> GtkColumnViewColumn list" where
  "collect_view_columns view hash [] view_columns = view_columns"
| "collect_view_columns view hash (col # l) view_columns =
     (let lowercase = g_ascii_strdown (name col)
      in if hash lowercase \<noteq> None
         then (case all_view_columns_hash view (name col) of
                 Some view_column \<Rightarrow> collect_view_columns view hash l (view_column # view_columns)
               | None \<Rightarrow> collect_view_columns view hash l view_columns)
         else collect_view_columns view hash l view_columns)"

text \<open>The loop that hides columns. It reads the live list of attached columns by index
  and asks for its length anew at every round.\<close>

function hide_columns ::
  "GtkColumnViewColumn list \<Rightarrow> GtkColumnViewColumn list \<Rightarrow> nat \<Rightarrow> GtkColumnViewColumn list" where
  "hide_columns view_columns old_view_columns i =
     (if i < length old_view_columns
      then (let view_column = old_view_columns ! i
            in if view_column \<notin> set view_columns
               then hide_columns view_columns
                      (gtk_column_view_remove_column old_view_columns view_column) (i + 1)
               else hide_columns view_columns old_view_columns (i + 1))
      else old_view_columns)"
  by pat_completeness auto
termination
  by (relation "measure (\<lambda>(vc, old, i). length old - i)")
     (auto simp: gtk_column_view_remove_column_def length_remove1)

text \<open>The loop that places the columns, counting \<open>column_i\<close> up.\<close>

fun place_columns ::
  "GtkColumnViewColumn list \<Rightarrow> nat \<Rightarrow> GtkColumnViewColumn list \<Rightarrow> GtkColumnViewColumn list" where
  "place_columns [] column_i cols = cols"
| "place_columns (c # l) column_i cols =
     place_columns l (column_i + 1) (gtk_column_view_insert_column cols column_i c)"

definition view_location :: "world \<Rightarrow> string" where
  "view_location w =
     (if model_is_search_directory w then query_location w
      else location (directory_as_file w))"

definition target_view_columns ::
  "helpers \<Rightarrow> string list option \<Rightarrow> string list option \<Rightarrow> world \<Rightarrow> GtkColumnViewColumn list" where
  "target_view_columns h column_order visible_columns w =
     (let all_columns = nautilus_sort_columns h
                          (nautilus_get_columns_for_file h (directory_as_file w)) column_order
      in rev (collect_view_columns (self w)
                (visible_columns_hash h (view_location w) visible_columns) all_columns []))"

definition apply_columns_settings ::
  "helpers \<Rightarrow> string list option \<Rightarrow> string list option \<Rightarrow> world \<Rightarrow> world" where
  "apply_columns_settings h column_order visible_columns w =
     (let view_columns = target_view_columns h column_order visible_columns w;
          cols1 = hide_columns view_columns (view_ui (self w)) 0;
          cols2 = place_columns view_columns 0 cols1
      in w\<lparr>self := (self w)\<lparr>view_ui := cols2\<rparr>\<rparr>)"

text \<open>The lists of visible columns and of the column order of the directory shown.\<close>

definition get_default_visible_columns :: "world \<Rightarrow> string list" where
  "get_default_visible_columns w =
     (let file = directory_as_file w
      in if is_in_trash file then default_columns_for_trash
         else if is_in_recent file then default_columns_for_recent
         else default_visible_columns (list_view_preferences w))"

definition get_visible_columns :: "world \<Rightarrow> string list" where
  "get_visible_columns w =
     (case metadata_list (directory_as_file w) NAUTILUS_METADATA_KEY_LIST_VIEW_VISIBLE_COLUMNS of
        None \<Rightarrow> get_default_visible_columns w
      | Some [] \<Rightarrow> get_default_visible_columns w
      | Some visible_columns \<Rightarrow> visible_columns)"

definition get_default_column_order :: "world \<Rightarrow> string list" where
  "get_default_column_order w =
     (let file = directory_as_file w
      in if is_in_trash file then default_columns_for_trash
         else if is_in_recent file then default_columns_for_recent
         else default_column_order (list_view_preferences w))"

definition get_column_order :: "world \<Rightarrow> string list" where
  "get_column_order w =
     (case metadata_list (directory_as_file w) NAUTILUS_METADATA_KEY_LIST_VIEW_COLUMN_ORDER of
        Some (c # cs) \<Rightarrow> c # cs
      | _ \<Rightarrow> get_default_column_order w)"

definition update_columns_settings_from_metadata_and_preferences ::
  "helpers \<Rightarrow> world \<Rightarrow> world" where
  "update_columns_settings_from_metadata_and_preferences h w =
     (let column_order = get_column_order w;
          visible_columns = get_visible_columns w
      in apply_columns_settings h (Some column_order) (Some visible_columns) w)"

definition nautilus_file_set_metadata_list ::
  "metadata_key \<Rightarrow> string list option \<Rightarrow> world \<Rightarrow> world" where
  "nautilus_file_set_metadata_list key list w =
     w\<lparr>directory_as_file :=
         (directory_as_file w)\<lparr>metadata_list := (metadata_list (directory_as_file w))(key := list)\<rparr>\<rparr>"

text \<open>The handler of the column chooser's \<^verbatim>\<open>changed\<close> signal; the two lists are the
  settings that \<^verbatim>\<open>nautilus_column_chooser_get_settings\<close> hands out.\<close>

definition column_chooser_changed_callback ::
  "helpers \<Rightarrow> string list \<Rightarrow> string list \<Rightarrow> world \<Rightarrow> world" where
  "column_chooser_changed_callback h visible_columns column_order w =
     (let w1 = nautilus_file_set_metadata_list
                 NAUTILUS_METADATA_KEY_LIST_VIEW_VISIBLE_COLUMNS (Some visible_columns) w;
          w2 = nautilus_file_set_metadata_list
                 NAUTILUS_METADATA_KEY_LIST_VIEW_COLUMN_ORDER (Some column_order) w1
      in apply_columns_settings h (Some column_order) (Some visible_columns) w2)"

definition column_chooser_use_default_callback :: "helpers \<Rightarrow> world \<Rightarrow> world" where
  "column_chooser_use_default_callback h w =
     (let w1 = nautilus_file_set_metadata_list NAUTILUS_METADATA_KEY_LIST_VIEW_COLUMN_ORDER None w;
          w2 = nautilus_file_set_metadata_list
                 NAUTILUS_METADATA_KEY_LIST_VIEW_VISIBLE_COLUMNS None w1;
          default_columns = get_default_visible_columns w2;
          default_order = get_default_column_order w2
      in apply_columns_settings h (Some default_order) (Some default_columns) w2)"

text \<open>
  Creating the columns of the view from the registry. \<open>fresh\<close> is the address of the next
  list item factory: every round of the loop creates one.
\<close>

fun setup_view_columns_loop ::
  "NautilusColumn list \<Rightarrow> nat \<Rightarrow> NautilusListView \<Rightarrow> NautilusListView" where
  "setup_view_columns_loop [] fresh view = view"
| "setup_view_columns_loop (nautilus_column # l) fresh view =
     (let data = \<lparr>sort_attribute = attribute_q nautilus_column\<rparr>;
          view_column0 = \<lparr>factory = fresh, title = label nautilus_column, sorter = data,
                          expand = False, resizable = True\<rparr>;
          view_column = (if name nautilus_column = ''name''
                         then view_column0\<lparr>expand := True\<rparr>
                         else if name nautilus_column = ''starred''
                         then view_column0\<lparr>title := [], resizable := False\<rparr>
                         else view_column0);
          view1 = (if name nautilus_column = ''starred''
                   then view\<lparr>star_column := Some view_column\<rparr> else view)
      in setup_view_columns_loop l (Suc fresh)
           (view1\<lparr>factory_to_column_map :=
                     (factory_to_column_map view1)(fresh \<mapsto> nautilus_column),
                   all_view_columns_hash :=
                     (all_view_columns_hash view1)(name nautilus_column \<mapsto> view_column)\<rparr>))"

definition setup_view_columns :: "helpers \<Rightarrow> NautilusListView \<Rightarrow> NautilusListView" where
  "setup_view_columns h view =
     setup_view_columns_loop (nautilus_get_all_columns h) 0
       (view\<lparr>factory_to_column_map := Map.empty, all_view_columns_hash := Map.empty\<rparr>)"

section \<open>The sort action\<close>

definition attributes :: "string list" where
  "attributes = [''name'', ''size'', ''type'', ''date_modified'', ''date_accessed'',
     ''date_created'', ''starred'', ''trashed_on'', ''search_relevance'', ''recency'']"

text \<open>\<^verbatim>\<open>attributes[sort_type]\<close>: the array ends with \<^verbatim>\<open>NULL\<close>, which is \<open>None\<close>; the sort
  types are indices of the array.\<close>

definition attributes_at :: "nat \<Rightarrow> string option" where
  "attributes_at sort_type =
     (if sort_type < length attributes then Some (attributes ! sort_type) else None)"

text \<open>The search for the column to sort by, over the attached columns from the first.\<close>

fun find_sort_column ::
  "NautilusListView \<Rightarrow> string option \<Rightarrow> GtkColumnViewColumn list \<Rightarrow> GtkColumnViewColumn option" where
  "find_sort_column view wanted [] = None"
| "find_sort_column view wanted (view_column # rest) =
     (case factory_to_column_map view (factory view_column) of
        None \<Rightarrow> find_sort_column view wanted rest
      | Some nautilus_column \<Rightarrow>
          if wanted = Some (attribute nautilus_column) then Some view_column
          else find_sort_column view wanted rest)"

text \<open>The handler that changes the state of the action \<^verbatim>\<open>sort\<close> to \<open>val\<close>.\<close>

definition action_sort_order_changed :: "helpers \<Rightarrow> string \<times> bool \<Rightarrow> world \<Rightarrow> world" where
  "action_sort_order_changed h val w =
     (if val = sort_action_state w then w
      else (let target_name = fst val; reversed = snd val
            in if target_name = ''unknown'' then w\<lparr>sort_action_state := val\<rparr>
               else (let sort_type = get_sorts_type_from_metadata_text h target_name;
                         sort_column = find_sort_column (self w) (attributes_at sort_type)
                                         (view_ui (self w));
                         w1 = (if \<not> column_header_was_clicked (self w)
                               then w\<lparr>sort_by_column := Some (sort_column, reversed)\<rparr>
                               else w);
                         w2 = w1\<lparr>self := (self w1)\<lparr>column_header_was_clicked := False\<rparr>\<rparr>;
                         w3 = w2\<lparr>directory_as_file :=
                                   (directory_as_file w2)\<lparr>sort_metadata :=
                                      Some (target_name, reversed)\<rparr>\<rparr>
                     in w3\<lparr>sort_action_state := val\<rparr>)))"

text \<open>The handler that runs after the sorter has changed. Changing the state of the
  action \<^verbatim>\<open>sort\<close> runs \<open>action_sort_order_changed\<close>.\<close>

definition on_after_sorter_changed :: "helpers \<Rightarrow> world \<Rightarrow> world" where
  "on_after_sorter_changed h w =
     (if \<not> column_header_was_clicked (self w) \<or> clicked_column_attribute_q (self w) = 0
      then w
      else (let current_sort_text = fst (sort_action_state w);
                reversed = snd (sort_action_state w);
                new_sort_text = g_quark_to_string h (clicked_column_attribute_q (self w));
                reversed1 = (if new_sort_text = current_sort_text then \<not> reversed else False)
            in action_sort_order_changed h (new_sort_text, reversed1) w))"

section \<open>A small view, for evaluating the functions\<close>

definition example_columns :: "NautilusColumn list" where
  "example_columns =
     [\<lparr>name = ''name'', label = ''Name'', attribute = ''name'', attribute_q = 1\<rparr>,
      \<lparr>name = ''size'', label = ''Size'', attribute = ''size'', attribute_q = 2\<rparr>,
      \<lparr>name = ''type'', label = ''Type'', attribute = ''type'', attribute_q = 3\<rparr>,
      \<lparr>name = ''starred'', label = ''Star'', attribute = ''starred'', attribute_q = 4\<rparr>]"

text \<open>Helpers for the example: no location can be starred, and the columns are sorted by
  listing those that the order names first, in its order.\<close>

definition example_helpers :: helpers where
  "example_helpers =
     \<lparr>nautilus_get_all_columns = example_columns,
      nautilus_get_columns_for_file = (\<lambda>f. example_columns),
      nautilus_sort_columns = (\<lambda>cols order.
         case order of
           None \<Rightarrow> cols
         | Some ns \<Rightarrow> concat (map (\<lambda>n. filter (\<lambda>c. name c = n) cols) ns)
                      @ filter (\<lambda>c. name c \<notin> set ns) cols),
      nautilus_tag_manager_can_star_contents = (\<lambda>loc. False),
      nautilus_is_starred_directory = (\<lambda>loc. False),
      get_sorts_type_from_metadata_text = (\<lambda>t. if t = ''size'' then 1 else 0),
      g_quark_to_string = (\<lambda>q. if q = 2 then ''size'' else if q = 3 then ''type''
                                  else if q = 4 then ''starred'' else ''name'')\<rparr>"

definition example_name_column :: GtkColumnViewColumn where
  "example_name_column =
     \<lparr>factory = 0, title = ''Name'', sorter = \<lparr>sort_attribute = 1\<rparr>,
      expand = True, resizable = True\<rparr>"

definition example_size_column :: GtkColumnViewColumn where
  "example_size_column =
     \<lparr>factory = 1, title = ''Size'', sorter = \<lparr>sort_attribute = 2\<rparr>,
      expand = False, resizable = True\<rparr>"

definition example_type_column :: GtkColumnViewColumn where
  "example_type_column =
     \<lparr>factory = 2, title = ''Type'', sorter = \<lparr>sort_attribute = 3\<rparr>,
      expand = False, resizable = True\<rparr>"

definition example_star_column :: GtkColumnViewColumn where
  "example_star_column =
     \<lparr>factory = 3, title = [], sorter = \<lparr>sort_attribute = 4\<rparr>,
      expand = False, resizable = False\<rparr>"

definition example_new_view :: NautilusListView where
  "example_new_view =
     \<lparr>view_ui = [], zoom_level = 1, directories_first = True, star_column = None,
      factory_to_column_map = Map.empty, all_view_columns_hash = Map.empty,
      column_header_was_clicked = False, clicked_column_attribute_q = 0\<rparr>"

text \<open>A view on an ordinary directory with the columns name, size and type attached.\<close>

definition example_world :: world where
  "example_world =
     \<lparr>self = (setup_view_columns example_helpers example_new_view)
               \<lparr>view_ui := [example_name_column, example_size_column, example_type_column]\<rparr>,
      directory_as_file =
        \<lparr>location = ''file:///home'', is_in_trash = False, is_in_recent = False,
         metadata_list = (\<lambda>k. None), sort_metadata = None\<rparr>,
      model_is_search_directory = False,
      query_location = [],
      list_view_preferences =
        \<lparr>default_visible_columns = [''name'', ''size'', ''type''],
         default_column_order = [''name'', ''size'', ''type'', ''starred''],
         default_zoom_level = 7\<rparr>,
      sort_action_state = (''name'', False),
      zoom_action_state = 1,
      sort_by_column = None\<rparr>"

definition example_item_a :: "nat NautilusViewItem" where
  "example_item_a = \<lparr>item_ptr = 1, item_file = Some 10\<rparr>"

definition example_item_b :: "nat NautilusViewItem" where
  "example_item_b = \<lparr>item_ptr = 2, item_file = Some 20\<rparr>"

definition example_item_null :: "nat NautilusViewItem" where
  "example_item_null = \<lparr>item_ptr = 3, item_file = None\<rparr>"

text \<open>In the example, file 10 is a directory and nothing else is; files compare by their
  numbers whatever the attribute.\<close>

definition example_is_directory :: "nat option \<Rightarrow> bool" where
  "example_is_directory f = (f = Some 10)"

definition example_compare :: "nat \<Rightarrow> nat \<Rightarrow> GQuark \<Rightarrow> bool \<Rightarrow> bool \<Rightarrow> int" where
  "example_compare fa fb q dirs_first reversed = int fa - int fb"

section \<open>Facts about the example\<close>

lemma example_setup_view_columns:
  "setup_view_columns example_helpers example_new_view =
     \<lparr>view_ui = [], zoom_level = 1, directories_first = True,
      star_column = Some example_star_column,
      factory_to_column_map =
        [0 \<mapsto> example_columns ! 0, 1 \<mapsto> example_columns ! 1,
         2 \<mapsto> example_columns ! 2, 3 \<mapsto> example_columns ! 3],
      all_view_columns_hash =
        [''name'' \<mapsto> example_name_column, ''size'' \<mapsto> example_size_column,
         ''type'' \<mapsto> example_type_column, ''starred'' \<mapsto> example_star_column],
      column_header_was_clicked = False, clicked_column_attribute_q = 0\<rparr>"
  by (simp add: setup_view_columns_def example_helpers_def example_new_view_def
        example_columns_def example_name_column_def example_size_column_def
        example_type_column_def example_star_column_def Let_def
        numeral_2_eq_2 numeral_3_eq_3)

lemma example_self:
  "self example_world =
     \<lparr>view_ui = [example_name_column, example_size_column, example_type_column],
      zoom_level = 1, directories_first = True,
      star_column = Some example_star_column,
      factory_to_column_map =
        [0 \<mapsto> example_columns ! 0, 1 \<mapsto> example_columns ! 1,
         2 \<mapsto> example_columns ! 2, 3 \<mapsto> example_columns ! 3],
      all_view_columns_hash =
        [''name'' \<mapsto> example_name_column, ''size'' \<mapsto> example_size_column,
         ''type'' \<mapsto> example_type_column, ''starred'' \<mapsto> example_star_column],
      column_header_was_clicked = False, clicked_column_attribute_q = 0\<rparr>"
  by (simp add: example_world_def example_setup_view_columns)

lemma example_strdown:
  "g_ascii_strdown ''name'' = ''name''"
  "g_ascii_strdown ''size'' = ''size''"
  "g_ascii_strdown ''type'' = ''type''"
  "g_ascii_strdown ''starred'' = ''starred''"
  "g_ascii_strdown ''Type'' = ''type''"
  "g_ascii_strdown ''TYPE'' = ''type''"
  "g_ascii_strdown ''Name'' = ''name''"
  "g_ascii_strdown ''bogus'' = ''bogus''"
  by code_simp+

lemma example_columns_differ:
  "example_name_column \<noteq> example_size_column"
  "example_name_column \<noteq> example_type_column"
  "example_name_column \<noteq> example_star_column"
  "example_size_column \<noteq> example_type_column"
  "example_size_column \<noteq> example_star_column"
  "example_type_column \<noteq> example_star_column"
  by (simp_all add: example_name_column_def example_size_column_def
        example_type_column_def example_star_column_def)

lemma example_location: "view_location example_world = ''file:///home''"
  by (simp add: view_location_def example_world_def)

section \<open>Zoom levels stay in range\<close>

lemma example_zoom:
  "zoom_level (self example_world) = 1"
  "default_zoom_level (list_view_preferences example_world) = 7"
  by (simp_all add: example_self) (simp add: example_world_def)

lemma to_guint_nonneg: "0 \<le> x \<Longrightarrow> x < 2 ^ 32 \<Longrightarrow> to_guint x = x"
  by (simp add: to_guint_def)

lemma to_guint_neg: "- (2 ^ 32) \<le> x \<Longrightarrow> x < 0 \<Longrightarrow> to_guint x = x + 2 ^ 32"
proof -
  assume a: "- (2 ^ 32) \<le> x" "x < 0"
  have "(x + 2 ^ 32) mod 2 ^ 32 = x mod 2 ^ 32" by simp
  moreover have "(x + 2 ^ 32) mod 2 ^ 32 = x + 2 ^ 32"
    using a by (intro mod_pos_pos_trivial) simp_all
  ultimately show ?thesis by (simp add: to_guint_def)
qed

lemma to_gint_small: "0 \<le> x \<Longrightarrow> x < 2 ^ 31 \<Longrightarrow> to_gint x = x"
  by (simp add: to_gint_def)

lemma to_gint_to_guint_small: "0 \<le> x \<Longrightarrow> x < 2 ^ 31 \<Longrightarrow> to_gint (to_guint x) = x"
  by (simp add: to_gint_small to_guint_nonneg)

lemma zoom_level_action_zoom_to_level:
  "zoom_level (self (action_zoom_to_level n w)) = to_gint (to_guint n)"
  by (simp add: action_zoom_to_level_def set_zoom_level_def Let_def)

lemma zoom_level_action_in_range:
  "0 \<le> n \<Longrightarrow> n < 2 ^ 31 \<Longrightarrow> zoom_level (self (action_zoom_to_level n w)) = n"
  by (simp add: zoom_level_action_zoom_to_level to_gint_to_guint_small)

lemma get_default_zoom_level_eq:
  assumes "0 \<le> SMALL" "SMALL \<le> LARGE" "LARGE < 2 ^ 31"
      and "- (2 ^ 31) \<le> default_zoom_level p" "default_zoom_level p < 2 ^ 31"
  shows "get_default_zoom_level SMALL LARGE p =
           (if default_zoom_level p < 0 \<or> LARGE < default_zoom_level p then LARGE
            else if default_zoom_level p < SMALL then SMALL
            else default_zoom_level p)"
proof -
  have S: "to_guint SMALL = SMALL" and L: "to_guint LARGE = LARGE"
    using assms by (simp_all add: to_guint_nonneg)
  have gS: "to_gint SMALL = SMALL" and gL: "to_gint LARGE = LARGE"
    using assms by (simp_all add: to_gint_small)
  show ?thesis
  proof (cases "default_zoom_level p < 0")
    case True
    then have "to_guint (default_zoom_level p) = default_zoom_level p + 2 ^ 32"
      using assms(4) by (intro to_guint_neg) simp_all
    then show ?thesis
      using True assms by (simp add: get_default_zoom_level_def CLAMP_def S L gL Let_def)
  next
    case False
    then have "to_guint (default_zoom_level p) = default_zoom_level p"
      using assms(5) by (intro to_guint_nonneg) simp_all
    then show ?thesis
      using False assms
      by (simp add: get_default_zoom_level_def CLAMP_def S L gS gL Let_def to_gint_small)
  qed
qed

lemma zoom_level_init_zoom_level:
  assumes "0 \<le> SMALL" "SMALL \<le> LARGE" "LARGE < 2 ^ 31"
      and "- (2 ^ 31) \<le> default_zoom_level (list_view_preferences w)"
          "default_zoom_level (list_view_preferences w) < 2 ^ 31"
  shows "zoom_level (self (init_zoom_level SMALL LARGE w)) =
           (if default_zoom_level (list_view_preferences w) < 0
               \<or> LARGE < default_zoom_level (list_view_preferences w) then LARGE
            else if default_zoom_level (list_view_preferences w) < SMALL then SMALL
            else default_zoom_level (list_view_preferences w))"
proof -
  let ?d = "get_default_zoom_level SMALL LARGE (list_view_preferences w)"
  have d: "?d = (if default_zoom_level (list_view_preferences w) < 0
               \<or> LARGE < default_zoom_level (list_view_preferences w) then LARGE
            else if default_zoom_level (list_view_preferences w) < SMALL then SMALL
            else default_zoom_level (list_view_preferences w))"
    by (rule get_default_zoom_level_eq[OF assms])
  then have "0 \<le> ?d" "?d < 2 ^ 31" using assms by (auto split: if_splits)
  then have "zoom_level (self (init_zoom_level SMALL LARGE w)) = ?d"
    by (simp add: init_zoom_level_def Let_def zoom_level_action_in_range)
  with d show ?thesis by simp
qed

lemma zoom_level_real_bump_zoom_level:
  assumes "0 \<le> SMALL" "SMALL \<le> LARGE" "LARGE < 2 ^ 31"
  shows "zoom_level (self (real_bump_zoom_level SMALL LARGE inc w)) =
           (if SMALL \<le> to_guint (zoom_level (self w) + inc)
               \<and> to_guint (zoom_level (self w) + inc) \<le> LARGE
            then to_guint (zoom_level (self w) + inc) else zoom_level (self w))"
proof -
  have S: "to_guint SMALL = SMALL" and L: "to_guint LARGE = LARGE"
    using assms by (simp_all add: to_guint_nonneg)
  show ?thesis
  proof (cases "SMALL \<le> to_guint (zoom_level (self w) + inc)
               \<and> to_guint (zoom_level (self w) + inc) \<le> LARGE")
    case True
    then have b: "0 \<le> to_guint (zoom_level (self w) + inc)"
                 "to_guint (zoom_level (self w) + inc) < 2 ^ 31"
      using assms by simp_all
    have "to_gint (to_guint (zoom_level (self w) + inc)) = to_guint (zoom_level (self w) + inc)"
      using b by (rule to_gint_small)
    then show ?thesis
      using True b
      by (simp add: real_bump_zoom_level_def Let_def S L zoom_level_action_in_range)
  next
    case False
    then show ?thesis
      by (auto simp: real_bump_zoom_level_def Let_def S L)
  qed
qed

lemma to_guint_sum_in_range:
  assumes "0 \<le> SMALL" "SMALL \<le> LARGE" "LARGE < 2 ^ 31"
      and "SMALL \<le> z" "z \<le> LARGE" "- (2 ^ 31) \<le> inc" "inc < 2 ^ 31"
  shows "(SMALL \<le> to_guint (z + inc) \<and> to_guint (z + inc) \<le> LARGE) =
         (SMALL \<le> z + inc \<and> z + inc \<le> LARGE)"
   and "SMALL \<le> z + inc \<and> z + inc \<le> LARGE \<Longrightarrow> to_guint (z + inc) = z + inc"
proof -
  show "SMALL \<le> z + inc \<and> z + inc \<le> LARGE \<Longrightarrow> to_guint (z + inc) = z + inc"
    using assms by (intro to_guint_nonneg) simp_all
  show "(SMALL \<le> to_guint (z + inc) \<and> to_guint (z + inc) \<le> LARGE) =
         (SMALL \<le> z + inc \<and> z + inc \<le> LARGE)"
  proof (cases "z + inc < 0")
    case True
    have "to_guint (z + inc) = z + inc + 2 ^ 32"
      using True assms by (intro to_guint_neg) simp_all
    then show ?thesis using True assms by simp
  next
    case False
    have "to_guint (z + inc) = z + inc"
      using False assms by (intro to_guint_nonneg) simp_all
    then show ?thesis by simp
  qed
qed


lemma serve_zoom_request_in_range:
  assumes "0 \<le> SMALL" "SMALL \<le> MEDIUM" "MEDIUM \<le> LARGE" "LARGE < 2 ^ 31"
      and "\<forall>n. r = Zoom_to_level n \<longrightarrow> SMALL \<le> n \<and> n \<le> LARGE"
      and "SMALL \<le> zoom_level (self w)" "zoom_level (self w) \<le> LARGE"
  shows "SMALL \<le> zoom_level (self (serve_zoom_request SMALL MEDIUM LARGE r w)) \<and>
         zoom_level (self (serve_zoom_request SMALL MEDIUM LARGE r w)) \<le> LARGE"
proof (cases r)
  case (Bump inc)
  have "SMALL \<le> LARGE" using assms by simp
  from zoom_level_real_bump_zoom_level[OF assms(1) this assms(4), of inc w]
  show ?thesis using Bump assms(6,7) by (simp split: if_splits)
next
  case Restore_standard
  have "zoom_level (self (action_zoom_to_level MEDIUM w)) = MEDIUM"
    using assms by (intro zoom_level_action_in_range) simp_all
  then show ?thesis
    using Restore_standard assms by (simp add: real_restore_standard_zoom_level_def)
next
  case (Zoom_to_level n)
  then have n: "SMALL \<le> n" "n \<le> LARGE" using assms(5) by simp_all
  have "zoom_level (self (action_zoom_to_level n w)) = n"
    using n assms by (intro zoom_level_action_in_range) simp_all
  then show ?thesis using Zoom_to_level n by simp
qed

lemma serve_zoom_requests_in_range:
  assumes "0 \<le> SMALL" "SMALL \<le> MEDIUM" "MEDIUM \<le> LARGE" "LARGE < 2 ^ 31"
  shows "\<forall>n. Zoom_to_level n \<in> set rs \<longrightarrow> SMALL \<le> n \<and> n \<le> LARGE \<Longrightarrow>
         SMALL \<le> zoom_level (self w) \<Longrightarrow> zoom_level (self w) \<le> LARGE \<Longrightarrow>
         SMALL \<le> zoom_level (self (serve_zoom_requests SMALL MEDIUM LARGE rs w)) \<and>
         zoom_level (self (serve_zoom_requests SMALL MEDIUM LARGE rs w)) \<le> LARGE"
proof (induction rs arbitrary: w)
  case Nil
  then show ?case by simp
next
  case (Cons r rs)
  have r: "\<forall>n. r = Zoom_to_level n \<longrightarrow> SMALL \<le> n \<and> n \<le> LARGE"
    using Cons.prems(1) by simp
  have step: "SMALL \<le> zoom_level (self (serve_zoom_request SMALL MEDIUM LARGE r w)) \<and>
              zoom_level (self (serve_zoom_request SMALL MEDIUM LARGE r w)) \<le> LARGE"
    by (rule serve_zoom_request_in_range[OF assms r Cons.prems(2,3)])
  have rs: "\<forall>n. Zoom_to_level n \<in> set rs \<longrightarrow> SMALL \<le> n \<and> n \<le> LARGE"
    using Cons.prems(1) by simp
  from Cons.IH[OF rs conjunct1[OF step] conjunct2[OF step]] show ?case by simp
qed

text \<open>
  Claim C9, as the code has it. The constants are not negative and in the order
  \<open>SMALL \<le> MEDIUM \<le> LARGE\<close>. A new view starts at the stored preference clamped into the range
  from \<open>SMALL\<close> to \<open>LARGE\<close> when the stored value is not negative: a level of the range is
  kept, a smaller one gives \<open>SMALL\<close>, a larger one \<open>LARGE\<close>; a negative stored value gives
  \<open>LARGE\<close>, since it is held as an unsigned value. From there the level stays in the range
  under any sequence of zoom increments, returns to the standard level and states of the
  action \<^verbatim>\<open>zoom-to-level\<close> that are levels of the range. For a view whose level is in the
  range, one increment changes the level exactly when the incremented value is in the range
  and leaves it as it is otherwise; zooming in is possible exactly below \<open>LARGE\<close> and zooming
  out exactly above \<open>SMALL\<close>.
\<close>

theorem zoom_level_within_range:
  assumes "0 \<le> SMALL" "SMALL \<le> MEDIUM" "MEDIUM \<le> LARGE" "LARGE < 2 ^ 31"
      and "- (2 ^ 31) \<le> default_zoom_level (list_view_preferences w)"
          "default_zoom_level (list_view_preferences w) < 2 ^ 31"
      and "\<forall>n. Zoom_to_level n \<in> set rs \<longrightarrow> SMALL \<le> n \<and> n \<le> LARGE"
      and "SMALL \<le> zoom_level (self w')" "zoom_level (self w') \<le> LARGE"
      and "- (2 ^ 31) \<le> inc" "inc < 2 ^ 31"
  shows "zoom_level (self (init_zoom_level SMALL LARGE w)) =
           (if default_zoom_level (list_view_preferences w) < 0
               \<or> LARGE < default_zoom_level (list_view_preferences w) then LARGE
            else if default_zoom_level (list_view_preferences w) < SMALL then SMALL
            else default_zoom_level (list_view_preferences w))
       \<and> SMALL \<le> zoom_level (self (serve_zoom_requests SMALL MEDIUM LARGE rs
                     (init_zoom_level SMALL LARGE w)))
       \<and> zoom_level (self (serve_zoom_requests SMALL MEDIUM LARGE rs
             (init_zoom_level SMALL LARGE w))) \<le> LARGE
       \<and> zoom_level (self (real_bump_zoom_level SMALL LARGE inc w')) =
           (if SMALL \<le> zoom_level (self w') + inc \<and> zoom_level (self w') + inc \<le> LARGE
            then zoom_level (self w') + inc else zoom_level (self w'))
       \<and> real_can_zoom_in LARGE w' = (zoom_level (self w') < LARGE)
       \<and> real_can_zoom_out SMALL w' = (zoom_level (self w') > SMALL)"
proof -
  have SL: "SMALL \<le> LARGE" using assms(2,3) by simp
  let ?w0 = "init_zoom_level SMALL LARGE w"
  have init: "zoom_level (self ?w0) =
           (if default_zoom_level (list_view_preferences w) < 0
               \<or> LARGE < default_zoom_level (list_view_preferences w) then LARGE
            else if default_zoom_level (list_view_preferences w) < SMALL then SMALL
            else default_zoom_level (list_view_preferences w))"
    by (rule zoom_level_init_zoom_level[OF assms(1) SL assms(4,5,6)])
  have r0: "SMALL \<le> zoom_level (self ?w0)" "zoom_level (self ?w0) \<le> LARGE"
    using SL by (simp_all add: init)
  have range: "SMALL \<le> zoom_level (self (serve_zoom_requests SMALL MEDIUM LARGE rs ?w0)) \<and>
               zoom_level (self (serve_zoom_requests SMALL MEDIUM LARGE rs ?w0)) \<le> LARGE"
    by (rule serve_zoom_requests_in_range[OF assms(1,2,3,4) assms(7) r0])
  have bump: "zoom_level (self (real_bump_zoom_level SMALL LARGE inc w')) =
           (if SMALL \<le> zoom_level (self w') + inc \<and> zoom_level (self w') + inc \<le> LARGE
            then zoom_level (self w') + inc else zoom_level (self w'))"
    using to_guint_sum_in_range[OF assms(1) SL assms(4) assms(8,9,10,11)]
    by (simp add: zoom_level_real_bump_zoom_level[OF assms(1) SL assms(4)])
  show ?thesis
    using init range bump by (simp add: real_can_zoom_in_def real_can_zoom_out_def)
qed

text \<open>The example view with the levels 0, 1 and 2: stored preferences 7 and 1, a list of
  requests, and increments by 3 and by 1 from level 1; and, with the levels 1, 2 and 3, the
  stored preference 0.\<close>

theorem zoom_level_within_range_witness:
  "zoom_level (self (init_zoom_level 0 2 example_world)) = 2
   \<and> zoom_level (self (init_zoom_level 0 2
        (example_world\<lparr>list_view_preferences :=
           (list_view_preferences example_world)\<lparr>default_zoom_level := 1\<rparr>\<rparr>))) = 1
   \<and> zoom_level (self (init_zoom_level 1 3
        (example_world\<lparr>list_view_preferences :=
           (list_view_preferences example_world)\<lparr>default_zoom_level := 0\<rparr>\<rparr>))) = 1
   \<and> 0 \<le> zoom_level (self (serve_zoom_requests 0 1 2
            [Bump 1, Bump (- 1), Restore_standard, Zoom_to_level 0, Bump (- 1), Bump 5]
            (init_zoom_level 0 2 example_world)))
   \<and> zoom_level (self (serve_zoom_requests 0 1 2
            [Bump 1, Bump (- 1), Restore_standard, Zoom_to_level 0, Bump (- 1), Bump 5]
            (init_zoom_level 0 2 example_world))) \<le> 2
   \<and> zoom_level (self (real_bump_zoom_level 0 2 3 example_world)) = 1
   \<and> zoom_level (self (real_bump_zoom_level 0 2 1 example_world)) = 2
   \<and> real_can_zoom_in 2 example_world
   \<and> real_can_zoom_out 0 example_world"
proof -
  have a: "zoom_level (self (init_zoom_level 0 2 example_world)) = 2
     \<and> 0 \<le> zoom_level (self (serve_zoom_requests 0 1 2
            [Bump 1, Bump (- 1), Restore_standard, Zoom_to_level 0, Bump (- 1), Bump 5]
            (init_zoom_level 0 2 example_world)))
     \<and> zoom_level (self (serve_zoom_requests 0 1 2
            [Bump 1, Bump (- 1), Restore_standard, Zoom_to_level 0, Bump (- 1), Bump 5]
            (init_zoom_level 0 2 example_world))) \<le> 2
     \<and> zoom_level (self (real_bump_zoom_level 0 2 3 example_world)) = 1
     \<and> real_can_zoom_in 2 example_world
     \<and> real_can_zoom_out 0 example_world"
    using zoom_level_within_range[of 0 1 2 example_world
            "[Bump 1, Bump (- 1), Restore_standard, Zoom_to_level 0, Bump (- 1), Bump 5]"
            example_world 3]
    by (simp add: example_zoom)
  have b: "zoom_level (self (init_zoom_level 0 2
        (example_world\<lparr>list_view_preferences :=
           (list_view_preferences example_world)\<lparr>default_zoom_level := 1\<rparr>\<rparr>))) = 1
     \<and> zoom_level (self (real_bump_zoom_level 0 2 1 example_world)) = 2"
    using zoom_level_within_range[of 0 1 2
            "example_world\<lparr>list_view_preferences :=
               (list_view_preferences example_world)\<lparr>default_zoom_level := 1\<rparr>\<rparr>"
            "[]" example_world 1]
    by (simp add: example_zoom)
  have c: "zoom_level (self (init_zoom_level 1 3
        (example_world\<lparr>list_view_preferences :=
           (list_view_preferences example_world)\<lparr>default_zoom_level := 0\<rparr>\<rparr>))) = 1"
    using zoom_level_within_range[of 1 2 3
            "example_world\<lparr>list_view_preferences :=
               (list_view_preferences example_world)\<lparr>default_zoom_level := 0\<rparr>\<rparr>"
            "[]" example_world 0]
    by (simp add: example_zoom)
  from a b c show ?thesis by simp
qed

text \<open>
  The claim as it was stated fails for the stored preference \<open>-1\<close>, which gives the level 2
  and not 0; and the action \<^verbatim>\<open>zoom-to-level\<close> takes the state 99 as the level.
\<close>

theorem zoom_level_counterexample:
  "zoom_level (self (init_zoom_level 0 2
      (example_world\<lparr>list_view_preferences :=
         (list_view_preferences example_world)\<lparr>default_zoom_level := - 1\<rparr>\<rparr>))) = 2
   \<and> zoom_level (self (init_zoom_level 0 2
      (example_world\<lparr>list_view_preferences :=
         (list_view_preferences example_world)\<lparr>default_zoom_level := - 1\<rparr>\<rparr>)))
       \<noteq> max 0 (min 2 (- 1))
   \<and> zoom_level (self (action_zoom_to_level 99 (init_zoom_level 0 2 example_world))) = 99
   \<and> \<not> zoom_level (self (action_zoom_to_level 99 (init_zoom_level 0 2 example_world))) \<le> 2"
  by (simp add: init_zoom_level_def get_default_zoom_level_def CLAMP_def to_guint_def
        to_gint_def action_zoom_to_level_def set_zoom_level_def Let_def)


section \<open>Sorting: directories first, then the active column\<close>

lemma gtk_ordering_from_cmpfunc_ordering_int:
  "gtk_ordering_from_cmpfunc (ordering_int r) = r"
  by (cases r) (simp_all add: gtk_ordering_from_cmpfunc_def)

lemma sort_directories_func_eq:
  "sort_directories_func is_directory dirs_first a b =
     ordering_int
       (if dirs_first \<and> is_directory (item_file a) \<and> \<not> is_directory (item_file b)
        then GTK_ORDERING_SMALLER
        else if dirs_first \<and> is_directory (item_file b) \<and> \<not> is_directory (item_file a)
        then GTK_ORDERING_LARGER
        else GTK_ORDERING_EQUAL)"
  by (simp add: sort_directories_func_def Let_def)

text \<open>
  Claim C2. For two different items \<open>a\<close> and \<open>b\<close>: with directories first enabled, the
  directories comparator answers smaller when only \<open>a\<close> is a directory and larger when only
  \<open>b\<close> is, and the sorter of the view returns that answer without asking the column
  comparator, which therefore leaves the view untouched; in every other case (both or neither
  a directory, or directories first disabled) the directories comparator answers equal and
  the result is the one of the column view's sorter.
\<close>

theorem directories_first_before_column:
  assumes "item_ptr a \<noteq> item_ptr b"
  shows "sort_directories_func is_directory (directories_first view) a b =
           ordering_int
             (if directories_first view \<and> is_directory (item_file a)
                 \<and> \<not> is_directory (item_file b)
              then GTK_ORDERING_SMALLER
              else if directories_first view \<and> is_directory (item_file b)
                      \<and> \<not> is_directory (item_file a)
              then GTK_ORDERING_LARGER
              else GTK_ORDERING_EQUAL)
       \<and> list_view_sorter_compare cmp is_directory sort_columns a b view =
           (if directories_first view \<and> is_directory (item_file a)
               \<and> \<not> is_directory (item_file b)
            then (GTK_ORDERING_SMALLER, view)
            else if directories_first view \<and> is_directory (item_file b)
                    \<and> \<not> is_directory (item_file a)
            then (GTK_ORDERING_LARGER, view)
            else column_view_sorter_compare cmp sort_columns a b view)"
  using assms
  by (simp add: list_view_sorter_compare_def sort_directories_func_eq
        gtk_ordering_from_cmpfunc_ordering_int del: ordering_int.simps)

text \<open>File 10 is a directory and file 20 is not; sorted by a descending column, the
  directory still comes first, from either side.\<close>

theorem directories_first_before_column_witness:
  "item_ptr example_item_a \<noteq> item_ptr example_item_b
   \<and> sort_directories_func example_is_directory True example_item_a example_item_b = -1
   \<and> list_view_sorter_compare example_compare example_is_directory
        [(\<lparr>sort_attribute = 2\<rparr>, True)] example_item_a example_item_b (self example_world) =
      (GTK_ORDERING_SMALLER, self example_world)"
proof -
  have h: "item_ptr example_item_a \<noteq> item_ptr example_item_b"
    by (simp add: example_item_a_def example_item_b_def)
  show ?thesis
    using h directories_first_before_column[OF h, of example_is_directory "self example_world"
              example_compare "[(\<lparr>sort_attribute = 2\<rparr>, True)]"]
    by (simp add: example_self example_is_directory_def example_item_a_def example_item_b_def)
qed

text \<open>
  Claim C3. Every invocation of the file comparison that the column comparator makes has
  \<^verbatim>\<open>directories_first\<close> and \<^verbatim>\<open>reversed\<close> false: for two items with files it makes exactly one
  invocation, with the column's attribute and both flags false, and returns its result; the
  column view's sorter then applies the reversal of a descending column to that result, once.
\<close>

theorem column_comparator_flags:
  "(\<forall>call \<in> set (snd (snd (nautilus_list_view_sort cmp a b data view))).
      fst (snd (snd (snd call))) = False \<and> snd (snd (snd (snd call))) = False)
   \<and> snd (snd (nautilus_list_view_sort cmp a b data view)) =
       (case (item_file a, item_file b) of
          (Some fa, Some fb) \<Rightarrow> [(fa, fb, sort_attribute data, False, False)]
        | _ \<Rightarrow> [])
   \<and> fst (nautilus_list_view_sort cmp a b data view) =
       (case (item_file a, item_file b) of
          (Some fa, Some fb) \<Rightarrow> cmp fa fb (sort_attribute data) False False
        | _ \<Rightarrow> ordering_int GTK_ORDERING_EQUAL)
   \<and> fst (column_view_sorter_compare cmp [(data, inverted)] a b view) =
       (let r = gtk_ordering_from_cmpfunc (fst (nautilus_list_view_sort cmp a b data view))
        in if inverted then invert_ordering r else r)"
  by (cases "item_file a"; cases "item_file b")
     (simp_all add: nautilus_list_view_sort_def Let_def)

theorem column_comparator_flags_witness:
  "snd (snd (nautilus_list_view_sort example_compare example_item_a example_item_b
              \<lparr>sort_attribute = 2\<rparr> (self example_world))) = [(10, 20, 2, False, False)]
   \<and> fst (nautilus_list_view_sort example_compare example_item_a example_item_b
            \<lparr>sort_attribute = 2\<rparr> (self example_world)) = -10
   \<and> fst (column_view_sorter_compare example_compare [(\<lparr>sort_attribute = 2\<rparr>, True)]
            example_item_a example_item_b (self example_world)) = GTK_ORDERING_LARGER"
  using column_comparator_flags[of example_compare example_item_a example_item_b
          "\<lparr>sort_attribute = 2\<rparr>" "self example_world" True]
  by (simp add: example_item_a_def example_item_b_def example_compare_def
        gtk_ordering_from_cmpfunc_def)

text \<open>
  Claim C7. When the file of either item is \<^verbatim>\<open>NULL\<close>, the column comparator returns the
  value of \<^verbatim>\<open>GTK_ORDERING_EQUAL\<close> and makes no invocation of the file comparison.
\<close>

theorem null_file_compares_equal:
  assumes "item_file a = None \<or> item_file b = None"
  shows "fst (nautilus_list_view_sort cmp a b data view) = ordering_int GTK_ORDERING_EQUAL
       \<and> snd (snd (nautilus_list_view_sort cmp a b data view)) = []"
  using assms
  by (cases "item_file a"; cases "item_file b")
     (simp_all add: nautilus_list_view_sort_def Let_def)

theorem null_file_compares_equal_witness:
  "item_file example_item_null = None
   \<and> fst (nautilus_list_view_sort example_compare example_item_a example_item_null
            \<lparr>sort_attribute = 2\<rparr> (self example_world)) = 0
   \<and> snd (snd (nautilus_list_view_sort example_compare example_item_a example_item_null
                 \<lparr>sort_attribute = 2\<rparr> (self example_world))) = []"
proof -
  have h: "item_file example_item_a = None \<or> item_file example_item_null = None"
    by (simp add: example_item_null_def)
  show ?thesis
    using null_file_compares_equal[OF h, of example_compare "\<lparr>sort_attribute = 2\<rparr>"
            "self example_world"]
    by (simp add: example_item_null_def)
qed

section \<open>Capturing the column of a header click\<close>

lemma nautilus_list_view_sort_view:
  "fst (snd (nautilus_list_view_sort cmp a b data view)) =
     (if clicked_column_attribute_q view = 0 \<and> column_header_was_clicked view
      then view\<lparr>clicked_column_attribute_q := sort_attribute data\<rparr> else view)"
  by (cases "item_file a"; cases "item_file b")
     (simp_all add: nautilus_list_view_sort_def Let_def)

lemma column_view_sorter_compare_captured:
  "clicked_column_attribute_q view \<noteq> 0 \<Longrightarrow>
   snd (column_view_sorter_compare cmp sort_columns a b view) = view"
proof (induction sort_columns)
  case Nil
  then show ?case by simp
next
  case (Cons sc rest)
  obtain data inverted where sc: "sc = (data, inverted)" by (cases sc)
  from Cons show ?case
    by (simp add: sc Let_def nautilus_list_view_sort_view)
qed

lemma same_file_directories_equal:
  "item_file b = item_file a \<Longrightarrow>
   sort_directories_func is_directory dirs_first a b = ordering_int GTK_ORDERING_EQUAL"
  by (simp add: sort_directories_func_def Let_def)

lemma on_sorter_changed_one_item:
  assumes "sort_attribute data \<noteq> 0"
  shows "on_sorter_changed cmp is_directory ((data, inverted) # rest) [item] view =
           view\<lparr>column_header_was_clicked := True,
                clicked_column_attribute_q := sort_attribute data\<rparr>"
proof -
  let ?v1 = "view\<lparr>column_header_was_clicked := True, clicked_column_attribute_q := 0\<rparr>"
  let ?v2 = "view\<lparr>column_header_was_clicked := True,
                   clicked_column_attribute_q := sort_attribute data\<rparr>"
  let ?dummy = "nautilus_view_item_new (Suc (item_ptr item)) (item_file item)"
  have after: "fst (snd (nautilus_list_view_sort cmp item ?dummy data ?v1)) = ?v2"
    by (simp add: nautilus_list_view_sort_view)
  have rest: "snd (column_view_sorter_compare cmp rest item ?dummy ?v2) = ?v2"
    using assms by (intro column_view_sorter_compare_captured) simp
  have cv: "snd (column_view_sorter_compare cmp ((data, inverted) # rest) item ?dummy ?v1) = ?v2"
    using rest by (simp add: Let_def after)
  have dirs: "sort_directories_func is_directory (directories_first ?v1) item ?dummy =
                ordering_int GTK_ORDERING_EQUAL"
    by (rule same_file_directories_equal) (simp add: nautilus_view_item_new_def)
  have ptr: "item_ptr item \<noteq> item_ptr ?dummy"
    by (simp add: nautilus_view_item_new_def)
  have "snd (list_view_sorter_compare cmp is_directory ((data, inverted) # rest)
               item ?dummy ?v1) = ?v2"
    unfolding list_view_sorter_compare_def using ptr cv
    by (simp only: dirs gtk_ordering_from_cmpfunc_ordering_int Let_def if_False if_True simp_thms)
  then show ?thesis
    by (simp add: on_sorter_changed_def Let_def)
qed

text \<open>
  Claim C5. The handler of the sorter's change sets \<^verbatim>\<open>column_header_was_clicked\<close> and
  clears \<^verbatim>\<open>clicked_column_attribute_q\<close>, and does nothing else when the model does not hold
  exactly one item; the next call of the column comparator then stores its attribute in
  \<^verbatim>\<open>clicked_column_attribute_q\<close>. When the model holds exactly one item and the column view
  sorts by a column (the one clicked, first in its list, with an attribute that is a quark,
  hence not 0), the forced comparison against the dummy item reaches that column's
  comparator, and the handler ends with the column's attribute captured.
\<close>

theorem header_click_captures_attribute:
  "(length model \<noteq> 1 \<longrightarrow>
      on_sorter_changed cmp is_directory sort_columns model view =
        view\<lparr>column_header_was_clicked := True, clicked_column_attribute_q := 0\<rparr>)
   \<and> clicked_column_attribute_q
        (fst (snd (nautilus_list_view_sort cmp a b data
           (view\<lparr>column_header_was_clicked := True, clicked_column_attribute_q := 0\<rparr>)))) =
      sort_attribute data
   \<and> (sort_attribute data \<noteq> 0 \<longrightarrow>
        on_sorter_changed cmp is_directory ((data, inverted) # rest) [item] view =
          view\<lparr>column_header_was_clicked := True,
               clicked_column_attribute_q := sort_attribute data\<rparr>)"
  using on_sorter_changed_one_item[of data cmp is_directory inverted rest item view]
  by (simp add: on_sorter_changed_def Let_def nautilus_list_view_sort_view)

text \<open>A model of two items, then a comparison by the size column; and a model of one
  item, the column view sorting by size and then by name.\<close>

theorem header_click_captures_attribute_witness:
  "length [example_item_a, example_item_b] \<noteq> 1
   \<and> on_sorter_changed example_compare example_is_directory [(\<lparr>sort_attribute = 2\<rparr>, False)]
        [example_item_a, example_item_b] (self example_world) =
      (self example_world)\<lparr>column_header_was_clicked := True, clicked_column_attribute_q := 0\<rparr>
   \<and> clicked_column_attribute_q
        (fst (snd (nautilus_list_view_sort example_compare example_item_a example_item_b
           \<lparr>sort_attribute = 2\<rparr>
           ((self example_world)\<lparr>column_header_was_clicked := True,
                                 clicked_column_attribute_q := 0\<rparr>)))) = 2
   \<and> sort_attribute \<lparr>sort_attribute = 2\<rparr> \<noteq> 0
   \<and> on_sorter_changed example_compare example_is_directory
        [(\<lparr>sort_attribute = 2\<rparr>, False), (\<lparr>sort_attribute = 1\<rparr>, False)]
        [example_item_a] (self example_world) =
      (self example_world)\<lparr>column_header_was_clicked := True, clicked_column_attribute_q := 2\<rparr>"
  using header_click_captures_attribute[of "[example_item_a, example_item_b]"
          example_compare example_is_directory "[(\<lparr>sort_attribute = 2\<rparr>, False)]"
          "self example_world" example_item_a example_item_b "\<lparr>sort_attribute = 2\<rparr>"
          False "[(\<lparr>sort_attribute = 1\<rparr>, False)]" example_item_a]
  by simp

section \<open>Persisting the settings, and the sort action after a header click\<close>

lemma directory_as_file_apply_columns_settings:
  "directory_as_file (apply_columns_settings h column_order visible_columns w) =
     directory_as_file w"
  by (simp add: apply_columns_settings_def Let_def)

lemma sort_action_state_action_sort_order_changed:
  "sort_action_state (action_sort_order_changed h val w) = val"
  by (simp add: action_sort_order_changed_def Let_def)

text \<open>
  Claim C6. After the column chooser's change handler, the metadata of the directory holds
  the chooser's list of visible columns under the key for the visible columns and the
  chooser's column order under the key for the column order. When the sort action is given a
  state that differs from its current one and whose column name is not \<^verbatim>\<open>unknown\<close>, the sort
  metadata of the directory is written with the name and the reversed flag of that state, and
  the action takes the state.
\<close>

theorem chooser_and_sort_write_metadata:
  "metadata_list (directory_as_file
       (column_chooser_changed_callback h visible_columns column_order w))
     NAUTILUS_METADATA_KEY_LIST_VIEW_VISIBLE_COLUMNS = Some visible_columns
   \<and> metadata_list (directory_as_file
       (column_chooser_changed_callback h visible_columns column_order w))
     NAUTILUS_METADATA_KEY_LIST_VIEW_COLUMN_ORDER = Some column_order
   \<and> (val \<noteq> sort_action_state w \<and> fst val \<noteq> ''unknown'' \<longrightarrow>
        sort_metadata (directory_as_file (action_sort_order_changed h val w)) =
          Some (fst val, snd val)
        \<and> sort_action_state (action_sort_order_changed h val w) = val)"
  by (simp add: column_chooser_changed_callback_def Let_def
        directory_as_file_apply_columns_settings nautilus_file_set_metadata_list_def
        action_sort_order_changed_def)

text \<open>The example view sorts by name; the action is asked to sort by size, descending.\<close>

theorem chooser_and_sort_write_metadata_witness:
  "(''size'', True) \<noteq> sort_action_state example_world
   \<and> fst (''size'', True) \<noteq> ''unknown''
   \<and> sort_metadata (directory_as_file
        (action_sort_order_changed example_helpers (''size'', True) example_world)) =
      Some (''size'', True)
   \<and> sort_action_state
        (action_sort_order_changed example_helpers (''size'', True) example_world) =
      (''size'', True)
   \<and> metadata_list (directory_as_file
        (column_chooser_changed_callback example_helpers [''name'', ''type''] [''type'', ''name'']
           example_world))
        NAUTILUS_METADATA_KEY_LIST_VIEW_VISIBLE_COLUMNS = Some [''name'', ''type'']"
proof -
  have s: "sort_action_state example_world = (''name'', False)"
    by (simp add: example_world_def)
  show ?thesis
    using chooser_and_sort_write_metadata[of example_helpers "[''name'', ''type'']"
            "[''type'', ''name'']" example_world "(''size'', True)"]
    by (simp add: s)
qed

text \<open>
  Claim C8. When a header click has been recorded and its attribute captured, the handler
  that runs after the sorter's change leaves the sort action in this state: the column is
  the captured attribute's name; the reversed flag is the negation of the previous flag when
  that name is the column of the previous state, and false when it is another column.
\<close>

theorem header_click_sort_state:
  assumes "column_header_was_clicked (self w)"
      and "clicked_column_attribute_q (self w) \<noteq> 0"
  shows "sort_action_state (on_after_sorter_changed h w) =
           (g_quark_to_string h (clicked_column_attribute_q (self w)),
            if g_quark_to_string h (clicked_column_attribute_q (self w)) =
                 fst (sort_action_state w)
            then \<not> snd (sort_action_state w) else False)"
  using assms
  by (simp add: on_after_sorter_changed_def Let_def
        sort_action_state_action_sort_order_changed)

text \<open>The example view sorts by name, ascending; a click captured on the name column
  (quark 1) reverses the order.\<close>

theorem header_click_sort_state_witness:
  "column_header_was_clicked
     (self (example_world\<lparr>self := (self example_world)\<lparr>column_header_was_clicked := True,
                                     clicked_column_attribute_q := 1\<rparr>\<rparr>))
   \<and> clicked_column_attribute_q
       (self (example_world\<lparr>self := (self example_world)\<lparr>column_header_was_clicked := True,
                                       clicked_column_attribute_q := 1\<rparr>\<rparr>)) \<noteq> 0
   \<and> sort_action_state
       (on_after_sorter_changed example_helpers
          (example_world\<lparr>self := (self example_world)\<lparr>column_header_was_clicked := True,
                                    clicked_column_attribute_q := 1\<rparr>\<rparr>)) =
      (''name'', True)"
proof -
  let ?w = "example_world\<lparr>self := (self example_world)\<lparr>column_header_was_clicked := True,
                                     clicked_column_attribute_q := 1\<rparr>\<rparr>"
  have h1: "column_header_was_clicked (self ?w)" by simp
  have h2: "clicked_column_attribute_q (self ?w) \<noteq> 0" by simp
  have s: "sort_action_state example_world = (''name'', False)"
    by (simp add: example_world_def)
  show ?thesis
    using h1 h2 header_click_sort_state[OF h1 h2, of example_helpers]
    by (simp add: s example_helpers_def)
qed

section \<open>The lists of columns of a directory\<close>

text \<open>
  Claim C4. The list of visible columns and the column order that the view applies are the
  lists stored in the metadata of the directory when the stored list is neither \<^verbatim>\<open>NULL\<close> nor
  empty. Otherwise they are the defaults: name, size and trashed_on for a directory in the
  trash (asked first), name, size and recency for a directory in recent, and else the value
  of the settings key, the one for the visible columns or the one for the column order.
\<close>

theorem columns_from_metadata_or_defaults:
  "get_visible_columns w =
     (case metadata_list (directory_as_file w) NAUTILUS_METADATA_KEY_LIST_VIEW_VISIBLE_COLUMNS of
        Some (c # cs) \<Rightarrow> c # cs
      | _ \<Rightarrow> if is_in_trash (directory_as_file w) then [''name'', ''size'', ''trashed_on'']
             else if is_in_recent (directory_as_file w) then [''name'', ''size'', ''recency'']
             else default_visible_columns (list_view_preferences w))
   \<and> get_column_order w =
     (case metadata_list (directory_as_file w) NAUTILUS_METADATA_KEY_LIST_VIEW_COLUMN_ORDER of
        Some (c # cs) \<Rightarrow> c # cs
      | _ \<Rightarrow> if is_in_trash (directory_as_file w) then [''name'', ''size'', ''trashed_on'']
             else if is_in_recent (directory_as_file w) then [''name'', ''size'', ''recency'']
             else default_column_order (list_view_preferences w))
   \<and> update_columns_settings_from_metadata_and_preferences h w =
       apply_columns_settings h (Some (get_column_order w)) (Some (get_visible_columns w)) w"
  by (simp add: get_visible_columns_def get_column_order_def get_default_visible_columns_def
        get_default_column_order_def default_columns_for_trash_def
        default_columns_for_recent_def update_columns_settings_from_metadata_and_preferences_def
        Let_def split: option.splits list.splits)

text \<open>A directory in the trash that stores a column order and no list of visible columns.\<close>

theorem columns_from_metadata_or_defaults_witness:
  "get_visible_columns
     (example_world\<lparr>directory_as_file :=
        \<lparr>location = ''trash:///'', is_in_trash = True, is_in_recent = False,
         metadata_list = (\<lambda>k. if k = NAUTILUS_METADATA_KEY_LIST_VIEW_COLUMN_ORDER
                                then Some [''size'', ''name''] else None),
         sort_metadata = None\<rparr>\<rparr>) = [''name'', ''size'', ''trashed_on'']
   \<and> get_column_order
     (example_world\<lparr>directory_as_file :=
        \<lparr>location = ''trash:///'', is_in_trash = True, is_in_recent = False,
         metadata_list = (\<lambda>k. if k = NAUTILUS_METADATA_KEY_LIST_VIEW_COLUMN_ORDER
                                then Some [''size'', ''name''] else None),
         sort_metadata = None\<rparr>\<rparr>) = [''size'', ''name'']"
  using columns_from_metadata_or_defaults[of
          "example_world\<lparr>directory_as_file :=
             \<lparr>location = ''trash:///'', is_in_trash = True, is_in_recent = False,
              metadata_list = (\<lambda>k. if k = NAUTILUS_METADATA_KEY_LIST_VIEW_COLUMN_ORDER
                                     then Some [''size'', ''name''] else None),
              sort_metadata = None\<rparr>\<rparr>" example_helpers]
  by simp


section \<open>Applying the column settings\<close>

lemma dom_insert_visible_columns:
  "dom (insert_visible_columns vs hash) = dom hash \<union> g_ascii_strdown ` set vs"
  by (induction vs arbitrary: hash) auto

lemma dom_visible_columns_hash:
  "dom (visible_columns_hash h loc visible_columns) =
     insert ''name''
       ((if nautilus_tag_manager_can_star_contents h loc \<or> nautilus_is_starred_directory h loc
         then {''starred''} else {})
        \<union> g_ascii_strdown ` (case visible_columns of None \<Rightarrow> {} | Some vs \<Rightarrow> set vs))"
  by (cases visible_columns)
     (auto simp: visible_columns_hash_def Let_def dom_insert_visible_columns)

lemma collect_view_columns_eq:
  "collect_view_columns view hash l acc =
     rev (List.map_filter
            (\<lambda>col. if g_ascii_strdown (name col) \<in> dom hash
                    then all_view_columns_hash view (name col) else None) l) @ acc"
  by (induction l arbitrary: acc)
     (auto simp: Let_def split: option.splits)

lemma target_view_columns_eq:
  "target_view_columns h column_order visible_columns w =
     List.map_filter
       (\<lambda>col. if g_ascii_strdown (name col)
                    \<in> dom (visible_columns_hash h (view_location w) visible_columns)
               then all_view_columns_hash (self w) (name col) else None)
       (nautilus_sort_columns h (nautilus_get_columns_for_file h (directory_as_file w))
          column_order)"
  by (simp add: target_view_columns_def collect_view_columns_eq)

lemma setup_view_columns_loop_hash:
  assumes "\<forall>n vc. all_view_columns_hash view n = Some vc \<longrightarrow> factory vc < fresh"
      and "\<forall>n n' vc. all_view_columns_hash view n = Some vc \<and>
                      all_view_columns_hash view n' = Some vc \<longrightarrow> n = n'"
  shows "(\<forall>n n' vc. all_view_columns_hash (setup_view_columns_loop l fresh view) n = Some vc \<and>
                     all_view_columns_hash (setup_view_columns_loop l fresh view) n' = Some vc
                     \<longrightarrow> n = n')
       \<and> dom (all_view_columns_hash (setup_view_columns_loop l fresh view)) =
           dom (all_view_columns_hash view) \<union> name ` set l"
  using assms
proof (induction l arbitrary: fresh view)
  case Nil
  then show ?case by simp
next
  case (Cons col l)
  define view_column where "view_column =
     (if name col = ''name''
      then \<lparr>factory = fresh, title = label col, sorter = \<lparr>sort_attribute = attribute_q col\<rparr>,
            expand = True, resizable = True\<rparr>
      else if name col = ''starred''
      then \<lparr>factory = fresh, title = [], sorter = \<lparr>sort_attribute = attribute_q col\<rparr>,
            expand = False, resizable = False\<rparr>
      else \<lparr>factory = fresh, title = label col, sorter = \<lparr>sort_attribute = attribute_q col\<rparr>,
            expand = False, resizable = True\<rparr>)"
  define view1 where "view1 =
     (if name col = ''starred'' then view\<lparr>star_column := Some view_column\<rparr> else view)"
  define view2 where "view2 =
     view1\<lparr>factory_to_column_map := (factory_to_column_map view1)(fresh \<mapsto> col),
           all_view_columns_hash := (all_view_columns_hash view1)(name col \<mapsto> view_column)\<rparr>"
  have step: "setup_view_columns_loop (col # l) fresh view =
                setup_view_columns_loop l (Suc fresh) view2"
    by (simp add: view2_def view1_def view_column_def Let_def)
  have fac: "factory view_column = fresh" by (simp add: view_column_def)
  have hash2: "all_view_columns_hash view2 =
                 (all_view_columns_hash view)(name col \<mapsto> view_column)"
    by (simp add: view2_def view1_def)
  have a1: "\<forall>n vc. all_view_columns_hash view2 n = Some vc \<longrightarrow> factory vc < Suc fresh"
    using Cons.prems(1) fac by (auto simp: hash2 less_Suc_eq)
  have a2: "\<forall>n n' vc. all_view_columns_hash view2 n = Some vc \<and>
                       all_view_columns_hash view2 n' = Some vc \<longrightarrow> n = n'"
  proof (intro allI impI)
    fix n n' vc
    assume h: "all_view_columns_hash view2 n = Some vc \<and> all_view_columns_hash view2 n' = Some vc"
    show "n = n'"
    proof (cases "n = name col")
      case True
      then have vc: "vc = view_column" using h by (simp add: hash2)
      show ?thesis
      proof (cases "n' = name col")
        case True
        with \<open>n = name col\<close> show ?thesis by simp
      next
        case False
        then have "all_view_columns_hash view n' = Some view_column"
          using h vc by (simp add: hash2)
        then have "factory view_column < fresh" using Cons.prems(1) by blast
        then show ?thesis using fac by simp
      qed
    next
      case False
      then have n: "all_view_columns_hash view n = Some vc" using h by (simp add: hash2)
      show ?thesis
      proof (cases "n' = name col")
        case True
        then have "vc = view_column" using h by (simp add: hash2)
        then have "factory view_column < fresh" using n Cons.prems(1) by blast
        then show ?thesis using fac by simp
      next
        case False
        then have "all_view_columns_hash view n' = Some vc" using h by (simp add: hash2)
        with n Cons.prems(2) show ?thesis by blast
      qed
    qed
  qed
  have "dom (all_view_columns_hash view2) = insert (name col) (dom (all_view_columns_hash view))"
    by (simp add: hash2)
  with Cons.IH[OF a1 a2] show ?case
    unfolding step by auto
qed

lemma setup_view_columns_hash:
  "(\<forall>n n' vc. all_view_columns_hash (setup_view_columns h view) n = Some vc \<and>
               all_view_columns_hash (setup_view_columns h view) n' = Some vc \<longrightarrow> n = n')
   \<and> dom (all_view_columns_hash (setup_view_columns h view)) =
       name ` set (nautilus_get_all_columns h)"
  using setup_view_columns_loop_hash[of
          "view\<lparr>factory_to_column_map := Map.empty, all_view_columns_hash := Map.empty\<rparr>"
          0 "nautilus_get_all_columns h"]
  by (simp add: setup_view_columns_def)


lemma setup_view_columns_inj:
  "all_view_columns_hash (setup_view_columns h view) n = Some vc \<Longrightarrow>
   all_view_columns_hash (setup_view_columns h view) n' = Some vc \<Longrightarrow> n = n'"
  using setup_view_columns_hash[of h view] by blast

lemma setup_view_columns_dom:
  "dom (all_view_columns_hash (setup_view_columns h view)) =
     name ` set (nautilus_get_all_columns h)"
  using setup_view_columns_hash[of h view] by (rule conjunct2)

lemma insert_column_extends_prefix:
  assumes "take (length pre) cols = pre" and "c \<notin> set pre"
  shows "take (Suc (length pre)) (gtk_column_view_insert_column cols (length pre) c) = pre @ [c]"
proof -
  have len: "length pre \<le> length cols"
  proof -
    have "length (take (length pre) cols) = length pre" using assms(1) by simp
    then show ?thesis by simp
  qed
  define suf where "suf = drop (length pre) cols"
  have cols: "cols = pre @ suf"
    using assms(1) by (metis append_take_drop_id suf_def)
  show ?thesis
  proof (cases "c \<in> set cols")
    case True
    have "remove1 c cols = pre @ remove1 c suf"
      using assms(2) by (simp add: cols remove1_append)
    then show ?thesis
      using True len by (simp add: gtk_column_view_insert_column_def Let_def)
  next
    case False
    then show ?thesis
      using len by (simp add: gtk_column_view_insert_column_def Let_def cols)
  qed
qed

lemma place_columns_prefix:
  "distinct (pre @ l) \<Longrightarrow> take (length pre) cols = pre \<Longrightarrow>
   take (length pre + length l) (place_columns l (length pre) cols) = pre @ l"
proof (induction l arbitrary: pre cols)
  case Nil
  then show ?case by simp
next
  case (Cons c l)
  let ?cols = "gtk_column_view_insert_column cols (length pre) c"
  have "c \<notin> set pre" using Cons.prems(1) by auto
  then have pre: "take (length (pre @ [c])) ?cols = pre @ [c]"
    using insert_column_extends_prefix[OF Cons.prems(2)] by simp
  have "distinct ((pre @ [c]) @ l)" using Cons.prems(1) by simp
  from Cons.IH[OF this pre] show ?case by simp
qed

lemma set_insert_column:
  "set (gtk_column_view_insert_column cols i c) \<subseteq> insert c (set cols)"
  by (auto simp: gtk_column_view_insert_column_def Let_def
      dest: in_set_takeD in_set_dropD notin_set_remove1)

lemma set_place_columns:
  "set (place_columns l i cols) \<subseteq> set l \<union> set cols"
proof (induction l arbitrary: i cols)
  case Nil
  then show ?case by simp
next
  case (Cons c l)
  show ?case
    using Cons.IH[of "i + 1" "gtk_column_view_insert_column cols i c"]
          set_insert_column[of cols i c]
    by auto
qed

lemma set_hide_columns:
  "set (hide_columns view_columns old i) \<subseteq> set old"
proof (induction view_columns old i rule: hide_columns.induct)
  case (1 view_columns old i)
  show ?case
  proof (cases "i < length old")
    case False
    then show ?thesis by simp
  next
    case True
    show ?thesis
    proof (cases "old ! i \<in> set view_columns")
      case True
      with \<open>i < length old\<close> 1(2) show ?thesis by simp
    next
      case False
      have "set (gtk_column_view_remove_column old (old ! i)) \<subseteq> set old"
        by (simp add: gtk_column_view_remove_column_def set_remove1_subset)
      with False \<open>i < length old\<close> 1(1) show ?thesis
        by (auto simp: Let_def)
    qed
  qed
qed


lemma in_set_map_filter:
  "y \<in> set (List.map_filter f xs) \<longleftrightarrow> (\<exists>x\<in>set xs. f x = Some y)"
  by (induction xs) (auto split: option.splits)

lemma distinct_shown_columns:
  assumes inj: "\<And>n n' vc. H n = Some vc \<Longrightarrow> H n' = Some vc \<Longrightarrow> n = n'"
  shows "distinct (map name l) \<Longrightarrow>
         distinct (List.map_filter (\<lambda>col. if P col then H (name col) else None) l)"
proof (induction l)
  case Nil
  then show ?case by simp
next
  case (Cons col l)
  let ?f = "\<lambda>col. if P col then H (name col) else None"
  have d: "distinct (List.map_filter ?f l)" using Cons by simp
  show ?case
  proof (cases "?f col")
    case None
    then show ?thesis using d by simp
  next
    case (Some vc)
    have "vc \<notin> set (List.map_filter ?f l)"
    proof
      assume "vc \<in> set (List.map_filter ?f l)"
      then obtain col' where c': "col' \<in> set l" "?f col' = Some vc"
        by (auto simp: in_set_map_filter)
      then have "H (name col') = Some vc" by (simp split: if_splits)
      moreover have "H (name col) = Some vc" using Some by (simp split: if_splits)
      ultimately have "name col' = name col" by (rule inj)
      moreover have "name col' \<in> name ` set l" using c'(1) by (rule imageI)
      ultimately show False using Cons.prems by simp
    qed
    then show ?thesis using d Some by simp
  qed
qed


lemma example_sorted_columns:
  "nautilus_sort_columns example_helpers
     (nautilus_get_columns_for_file example_helpers (directory_as_file example_world))
     (Some [''type'', ''name'']) =
   [example_columns ! 2, example_columns ! 0, example_columns ! 1, example_columns ! 3]"
  by (simp add: example_helpers_def example_columns_def)

lemma example_cannot_star:
  "nautilus_tag_manager_can_star_contents example_helpers loc = False"
  "nautilus_is_starred_directory example_helpers loc = False"
  by (simp_all add: example_helpers_def)

lemma example_target_type_name:
  "target_view_columns example_helpers (Some [''type'', ''name''])
     (Some [''Type'', ''bogus'']) example_world =
     [example_type_column, example_name_column]"
  by (simp add: target_view_columns_def example_sorted_columns visible_columns_hash_def
        example_location example_self example_columns_def example_strdown example_cannot_star
        Let_def)

text \<open>
  Claim C1, as the code has it. The hash table of the names to show always holds
  \<^verbatim>\<open>name\<close>. It holds \<^verbatim>\<open>starred\<close> when the location supports starring or is the starred
  directory, and otherwise exactly when the list of visible columns names it, in any case of
  the letters. The columns to show are those columns of the registry, in the order in
  which \<^verbatim>\<open>nautilus_sort_columns\<close> returns them for the column order, whose name in lower case
  is in the table and for which the view has a column. When the view's columns are those
  that \<^verbatim>\<open>setup_view_columns\<close> created and the sorted registry names no column twice, the
  columns to show are, after the routine, the first columns of the view, in that order, and
  every column of the view is one of them or was attached before.
\<close>

theorem apply_columns_settings_places_visible_columns:
  assumes "all_view_columns_hash (self w) = all_view_columns_hash (setup_view_columns h view0)"
      and "distinct (map name (nautilus_sort_columns h
             (nautilus_get_columns_for_file h (directory_as_file w)) column_order))"
  shows "visible_columns_hash h (view_location w) visible_columns ''name'' \<noteq> None
       \<and> ((visible_columns_hash h (view_location w) visible_columns ''starred'' \<noteq> None) =
            (nautilus_tag_manager_can_star_contents h (view_location w)
             \<or> nautilus_is_starred_directory h (view_location w)
             \<or> ''starred'' \<in> g_ascii_strdown `
                  (case visible_columns of None \<Rightarrow> {} | Some vs \<Rightarrow> set vs)))
       \<and> target_view_columns h column_order visible_columns w =
           List.map_filter
             (\<lambda>col. if visible_columns_hash h (view_location w) visible_columns
                          (g_ascii_strdown (name col)) \<noteq> None
                     then all_view_columns_hash (self w) (name col) else None)
             (nautilus_sort_columns h (nautilus_get_columns_for_file h (directory_as_file w))
                column_order)
       \<and> take (length (target_view_columns h column_order visible_columns w))
            (view_ui (self (apply_columns_settings h column_order visible_columns w))) =
           target_view_columns h column_order visible_columns w
       \<and> set (view_ui (self (apply_columns_settings h column_order visible_columns w)))
           \<subseteq> set (target_view_columns h column_order visible_columns w) \<union> set (view_ui (self w))"
proof -
  let ?hash = "visible_columns_hash h (view_location w) visible_columns"
  let ?vc = "target_view_columns h column_order visible_columns w"
  let ?old = "view_ui (self w)"
  let ?listed = "''starred'' \<in> g_ascii_strdown `
                   (case visible_columns of None \<Rightarrow> {} | Some vs \<Rightarrow> set vs)"
  have "''name'' \<in> dom ?hash"
    by (simp add: dom_visible_columns_hash)
  then have name: "?hash ''name'' \<noteq> None"
    by (simp add: domIff)
  have "(''starred'' \<in> dom ?hash) =
          (nautilus_tag_manager_can_star_contents h (view_location w)
           \<or> nautilus_is_starred_directory h (view_location w) \<or> ?listed)"
    by (simp add: dom_visible_columns_hash)
  then have starred: "(?hash ''starred'' \<noteq> None) =
          (nautilus_tag_manager_can_star_contents h (view_location w)
           \<or> nautilus_is_starred_directory h (view_location w) \<or> ?listed)"
    by (simp add: domIff)
  have eq: "?vc = List.map_filter
             (\<lambda>col. if ?hash (g_ascii_strdown (name col)) \<noteq> None
                     then all_view_columns_hash (self w) (name col) else None)
             (nautilus_sort_columns h (nautilus_get_columns_for_file h (directory_as_file w))
                column_order)"
    by (simp only: target_view_columns_eq domIff)
  have inj: "\<And>n n' vc. all_view_columns_hash (self w) n = Some vc \<Longrightarrow>
                  all_view_columns_hash (self w) n' = Some vc \<Longrightarrow> n = n'"
    unfolding assms(1) by (rule setup_view_columns_inj)
  have dist: "distinct ?vc"
    unfolding eq by (rule distinct_shown_columns[OF inj assms(2)])
  have "take (length ([]::GtkColumnViewColumn list) + length ?vc)
          (place_columns ?vc (length ([]::GtkColumnViewColumn list)) (hide_columns ?vc ?old 0))
        = [] @ ?vc"
    using dist by (intro place_columns_prefix) simp_all
  then have placed: "take (length ?vc) (place_columns ?vc 0 (hide_columns ?vc ?old 0)) = ?vc"
    by simp
  have ui: "view_ui (self (apply_columns_settings h column_order visible_columns w)) =
              place_columns ?vc 0 (hide_columns ?vc ?old 0)"
    by (simp add: apply_columns_settings_def Let_def)
  have order: "take (length ?vc)
      (view_ui (self (apply_columns_settings h column_order visible_columns w))) = ?vc"
    by (simp only: ui placed)
  have "set (place_columns ?vc 0 (hide_columns ?vc ?old 0)) \<subseteq> set ?vc \<union> set ?old"
    using set_place_columns[of ?vc 0 "hide_columns ?vc ?old 0"] set_hide_columns[of ?vc ?old 0]
    by blast
  then have sub: "set (view_ui (self (apply_columns_settings h column_order visible_columns w)))
               \<subseteq> set ?vc \<union> set ?old"
    by (simp only: ui)
  show ?thesis
    by (rule conjI[OF name conjI[OF starred conjI[OF eq conjI[OF order sub]]]])
qed


text \<open>The example view, asked to show type and name in that order; the entry \<^verbatim>\<open>bogus\<close>
  names no column.\<close>

theorem apply_columns_settings_places_visible_columns_witness:
  "all_view_columns_hash (self example_world) =
     all_view_columns_hash (setup_view_columns example_helpers example_new_view)
   \<and> distinct (map name (nautilus_sort_columns example_helpers
        (nautilus_get_columns_for_file example_helpers (directory_as_file example_world))
        (Some [''type'', ''name''])))
   \<and> visible_columns_hash example_helpers (view_location example_world)
        (Some [''Type'', ''bogus'']) ''name'' \<noteq> None
   \<and> visible_columns_hash example_helpers (view_location example_world)
        (Some [''Type'', ''bogus'']) ''starred'' = None
   \<and> take 2 (view_ui (self (apply_columns_settings example_helpers (Some [''type'', ''name''])
        (Some [''Type'', ''bogus'']) example_world))) =
      [example_type_column, example_name_column]"
proof -
  have h1: "all_view_columns_hash (self example_world) =
              all_view_columns_hash (setup_view_columns example_helpers example_new_view)"
    by (simp add: example_world_def)
  have h2: "distinct (map name (nautilus_sort_columns example_helpers
              (nautilus_get_columns_for_file example_helpers (directory_as_file example_world))
              (Some [''type'', ''name''])))"
    by (simp add: example_sorted_columns example_columns_def)
  note t = apply_columns_settings_places_visible_columns[OF h1 h2,
             of "Some [''Type'', ''bogus'']"]
  from t have nm: "visible_columns_hash example_helpers (view_location example_world)
                     (Some [''Type'', ''bogus'']) ''name'' \<noteq> None"
    by (elim conjE)
  from t have st: "(visible_columns_hash example_helpers (view_location example_world)
                      (Some [''Type'', ''bogus'']) ''starred'' \<noteq> None) =
            (nautilus_tag_manager_can_star_contents example_helpers (view_location example_world)
             \<or> nautilus_is_starred_directory example_helpers (view_location example_world)
             \<or> ''starred'' \<in> g_ascii_strdown `
                  (case Some [''Type'', ''bogus''] of None \<Rightarrow> {} | Some vs \<Rightarrow> set vs))"
    by (elim conjE)
  from t have tk: "take (length (target_view_columns example_helpers (Some [''type'', ''name''])
                     (Some [''Type'', ''bogus'']) example_world))
            (view_ui (self (apply_columns_settings example_helpers (Some [''type'', ''name''])
               (Some [''Type'', ''bogus'']) example_world))) =
           target_view_columns example_helpers (Some [''type'', ''name''])
             (Some [''Type'', ''bogus'']) example_world"
    by (elim conjE)
  show ?thesis
    using h1 h2 nm st tk
    by (simp add: example_target_type_name example_cannot_star example_strdown numeral_2_eq_2)
qed


lemma example_target_starred:
  "target_view_columns example_helpers None (Some [''starred'']) example_world =
     [example_name_column, example_star_column]"
  by (simp add: target_view_columns_def visible_columns_hash_def example_location
        example_self example_helpers_def example_columns_def example_strdown Let_def)

lemma example_apply_starred:
  "view_ui (self (apply_columns_settings example_helpers None (Some [''starred''])
      example_world)) = [example_name_column, example_star_column, example_type_column]"
  using example_columns_differ
  by (simp add: apply_columns_settings_def example_target_starred example_self Let_def
        gtk_column_view_remove_column_def gtk_column_view_insert_column_def)

text \<open>
  The claim as it was stated fails in the example view, whose location cannot be starred, when
  the list of visible columns is \<^verbatim>\<open>starred\<close> alone: the table holds \<^verbatim>\<open>starred\<close> all the same;
  and the type column, attached before and not among the columns to show, is still attached
  afterwards, because the hiding loop steps over the column that follows one it removes.
\<close>

theorem starred_listed_and_column_left_counterexample:
  "\<not> ((visible_columns_hash example_helpers (view_location example_world)
          (Some [''starred'']) ''starred'' \<noteq> None) =
        (nautilus_tag_manager_can_star_contents example_helpers (view_location example_world)
         \<or> nautilus_is_starred_directory example_helpers (view_location example_world)))
   \<and> example_type_column \<in> set (view_ui (self example_world))
   \<and> example_type_column
        \<notin> set (target_view_columns example_helpers None (Some [''starred'']) example_world)
   \<and> example_type_column
        \<in> set (view_ui (self (apply_columns_settings example_helpers None (Some [''starred''])
                                 example_world)))"
proof -
  have listed: "visible_columns_hash example_helpers (view_location example_world)
                  (Some [''starred'']) ''starred'' \<noteq> None"
    by (simp add: visible_columns_hash_def example_strdown Let_def)
  have unsupported:
    "\<not> (nautilus_tag_manager_can_star_contents example_helpers (view_location example_world)
        \<or> nautilus_is_starred_directory example_helpers (view_location example_world))"
    by (simp add: example_helpers_def)
  show ?thesis
    using listed unsupported example_columns_differ
    by (simp add: example_apply_starred example_target_starred example_self)
qed


lemma apply_columns_settings_same_target:
  "target_view_columns h column_order vis1 w = target_view_columns h column_order vis2 w \<Longrightarrow>
   apply_columns_settings h column_order vis1 w = apply_columns_settings h column_order vis2 w"
  by (simp add: apply_columns_settings_def)

lemma target_view_columns_same_dom:
  assumes "dom (visible_columns_hash h (view_location w) vis1) =
           dom (visible_columns_hash h (view_location w) vis2)"
  shows "target_view_columns h column_order vis1 w = target_view_columns h column_order vis2 w"
  by (simp only: target_view_columns_eq assms)

lemma absent_entry_has_no_view_column:
  assumes "all_view_columns_hash (self w) = all_view_columns_hash (setup_view_columns h view0)"
      and "\<forall>col \<in> set (nautilus_get_all_columns h).
             g_ascii_strdown (name col) \<noteq> g_ascii_strdown x"
      and "g_ascii_strdown (name col) = g_ascii_strdown x"
  shows "all_view_columns_hash (self w) (name col) = None"
proof (rule ccontr)
  assume "all_view_columns_hash (self w) (name col) \<noteq> None"
  then have "name col \<in> dom (all_view_columns_hash (self w))" by (simp add: domIff)
  then have "name col \<in> name ` set (nautilus_get_all_columns h)"
    by (simp only: assms(1) setup_view_columns_dom)
  then obtain c where "c \<in> set (nautilus_get_all_columns h)" "name col = name c"
    by blast
  with assms(2,3) show False by auto
qed

lemma target_view_columns_absent_entry:
  assumes "all_view_columns_hash (self w) = all_view_columns_hash (setup_view_columns h view0)"
      and "\<forall>col \<in> set (nautilus_get_all_columns h).
             g_ascii_strdown (name col) \<noteq> g_ascii_strdown x"
  shows "target_view_columns h column_order (Some (vs1 @ x # vs2)) w =
         target_view_columns h column_order (Some (vs1 @ vs2)) w"
proof -
  let ?H = "all_view_columns_hash (self w)"
  let ?d1 = "dom (visible_columns_hash h (view_location w) (Some (vs1 @ x # vs2)))"
  let ?d2 = "dom (visible_columns_hash h (view_location w) (Some (vs1 @ vs2)))"
  have d: "?d1 = insert (g_ascii_strdown x) ?d2"
    by (simp add: dom_visible_columns_hash) blast
  have feq: "(\<lambda>col. if g_ascii_strdown (name col) \<in> ?d1 then ?H (name col) else None) =
        (\<lambda>col. if g_ascii_strdown (name col) \<in> ?d2 then ?H (name col) else None)"
  proof
    fix col
    show "(if g_ascii_strdown (name col) \<in> ?d1 then ?H (name col) else None) =
          (if g_ascii_strdown (name col) \<in> ?d2 then ?H (name col) else None)"
      using absent_entry_has_no_view_column[OF assms, of col] by (auto simp: d)
  qed
  show ?thesis
    unfolding target_view_columns_eq by (rule arg_cong2[OF feq refl])
qed

lemma view_ui_apply_columns_settings:
  "view_ui (self (apply_columns_settings h column_order visible_columns w)) =
     place_columns (target_view_columns h column_order visible_columns w) 0
       (hide_columns (target_view_columns h column_order visible_columns w) (view_ui (self w)) 0)"
  by (simp add: apply_columns_settings_def Let_def)

lemma target_view_columns_first_in_view:
  assumes "all_view_columns_hash (self w) = all_view_columns_hash (setup_view_columns h view0)"
      and "distinct (map name (nautilus_sort_columns h
             (nautilus_get_columns_for_file h (directory_as_file w)) column_order))"
  shows "take (length (target_view_columns h column_order visible_columns w))
           (view_ui (self (apply_columns_settings h column_order visible_columns w))) =
         target_view_columns h column_order visible_columns w"
proof -
  let ?vc = "target_view_columns h column_order visible_columns w"
  let ?old = "view_ui (self w)"
  have inj: "\<And>n n' vc. all_view_columns_hash (self w) n = Some vc \<Longrightarrow>
                  all_view_columns_hash (self w) n' = Some vc \<Longrightarrow> n = n'"
    unfolding assms(1) by (rule setup_view_columns_inj)
  have dist: "distinct ?vc"
    unfolding target_view_columns_eq by (rule distinct_shown_columns[OF inj assms(2)])
  have "take (length ([]::GtkColumnViewColumn list) + length ?vc)
          (place_columns ?vc (length ([]::GtkColumnViewColumn list)) (hide_columns ?vc ?old 0))
        = [] @ ?vc"
    using dist by (intro place_columns_prefix) simp_all
  then have "take (length ?vc) (place_columns ?vc 0 (hide_columns ?vc ?old 0)) = ?vc"
    by simp
  then show ?thesis
    by (simp only: view_ui_apply_columns_settings)
qed

lemma view_ui_apply_columns_settings_subset:
  "set (view_ui (self (apply_columns_settings h column_order visible_columns w)))
     \<subseteq> set (target_view_columns h column_order visible_columns w) \<union> set (view_ui (self w))"
proof -
  let ?vc = "target_view_columns h column_order visible_columns w"
  let ?old = "view_ui (self w)"
  have "set (place_columns ?vc 0 (hide_columns ?vc ?old 0)) \<subseteq> set ?vc \<union> set ?old"
    using set_place_columns[of ?vc 0 "hide_columns ?vc ?old 0"] set_hide_columns[of ?vc ?old 0]
    by blast
  then show ?thesis
    by (simp only: view_ui_apply_columns_settings)
qed

text \<open>
  Claim C10. The names of the visible columns are matched with the names of the registry's
  columns in lower case on both sides: a column is among the columns to show when its name
  in lower case is \<^verbatim>\<open>name\<close>, or \<^verbatim>\<open>starred\<close> where starring applies, or the lower case of an
  entry of the list, and the view has a column for it. The view's columns are those that
  \<^verbatim>\<open>setup_view_columns\<close> created from the registry, and the sorted registry names no column
  twice. Then a list that agrees with another in lower case gives the same view, whose first
  columns are the columns to show for either list, in order. And an entry whose lower case
  is the lower case of no registry column's name is ignored: the view has no column for any
  column of that name; the routine gives the same view as for the list without the entry;
  the first columns of that view are the columns to show for the remaining entries, in
  order; and each of its columns is one of these or was attached before.
\<close>

theorem visible_columns_matched_in_lower_case:
  assumes "all_view_columns_hash (self w) = all_view_columns_hash (setup_view_columns h view0)"
      and "\<forall>col \<in> set (nautilus_get_all_columns h).
             g_ascii_strdown (name col) \<noteq> g_ascii_strdown x"
      and "map g_ascii_strdown vis' = map g_ascii_strdown vis"
      and "distinct (map name (nautilus_sort_columns h
             (nautilus_get_columns_for_file h (directory_as_file w)) column_order))"
  shows "target_view_columns h column_order (Some vis) w =
           List.map_filter
             (\<lambda>col. if g_ascii_strdown (name col)
                          \<in> insert ''name''
                              ((if nautilus_tag_manager_can_star_contents h (view_location w)
                                   \<or> nautilus_is_starred_directory h (view_location w)
                                then {''starred''} else {})
                               \<union> g_ascii_strdown ` set vis)
                     then all_view_columns_hash (self w) (name col) else None)
             (nautilus_sort_columns h (nautilus_get_columns_for_file h (directory_as_file w))
                column_order)
       \<and> apply_columns_settings h column_order (Some vis') w =
           apply_columns_settings h column_order (Some vis) w
       \<and> take (length (target_view_columns h column_order (Some vis) w))
            (view_ui (self (apply_columns_settings h column_order (Some vis') w))) =
           target_view_columns h column_order (Some vis) w
       \<and> (\<forall>col. g_ascii_strdown (name col) = g_ascii_strdown x \<longrightarrow>
             all_view_columns_hash (self w) (name col) = None)
       \<and> apply_columns_settings h column_order (Some (vs1 @ x # vs2)) w =
           apply_columns_settings h column_order (Some (vs1 @ vs2)) w
       \<and> take (length (target_view_columns h column_order (Some (vs1 @ vs2)) w))
            (view_ui (self (apply_columns_settings h column_order (Some (vs1 @ x # vs2)) w))) =
           target_view_columns h column_order (Some (vs1 @ vs2)) w
       \<and> set (view_ui (self (apply_columns_settings h column_order (Some (vs1 @ x # vs2)) w)))
           \<subseteq> set (target_view_columns h column_order (Some (vs1 @ vs2)) w)
             \<union> set (view_ui (self w))"
proof -
  have a: "target_view_columns h column_order (Some vis) w =
           List.map_filter
             (\<lambda>col. if g_ascii_strdown (name col)
                          \<in> insert ''name''
                              ((if nautilus_tag_manager_can_star_contents h (view_location w)
                                   \<or> nautilus_is_starred_directory h (view_location w)
                                then {''starred''} else {})
                               \<union> g_ascii_strdown ` set vis)
                     then all_view_columns_hash (self w) (name col) else None)
             (nautilus_sort_columns h (nautilus_get_columns_for_file h (directory_as_file w))
                column_order)"
    by (simp add: target_view_columns_eq dom_visible_columns_hash)
  have "g_ascii_strdown ` set vis' = g_ascii_strdown ` set vis"
    using assms(3) by (metis set_map)
  then have "dom (visible_columns_hash h (view_location w) (Some vis')) =
             dom (visible_columns_hash h (view_location w) (Some vis))"
    by (simp add: dom_visible_columns_hash)
  then have b: "apply_columns_settings h column_order (Some vis') w =
                apply_columns_settings h column_order (Some vis) w"
    by (intro apply_columns_settings_same_target target_view_columns_same_dom)
  have c: "take (length (target_view_columns h column_order (Some vis) w))
            (view_ui (self (apply_columns_settings h column_order (Some vis') w))) =
           target_view_columns h column_order (Some vis) w"
    unfolding b by (rule target_view_columns_first_in_view[OF assms(1) assms(4)])
  have d: "\<forall>col. g_ascii_strdown (name col) = g_ascii_strdown x \<longrightarrow>
             all_view_columns_hash (self w) (name col) = None"
    using absent_entry_has_no_view_column[OF assms(1) assms(2)] by blast
  have e: "apply_columns_settings h column_order (Some (vs1 @ x # vs2)) w =
           apply_columns_settings h column_order (Some (vs1 @ vs2)) w"
    by (intro apply_columns_settings_same_target
          target_view_columns_absent_entry[OF assms(1) assms(2)])
  have f: "take (length (target_view_columns h column_order (Some (vs1 @ vs2)) w))
            (view_ui (self (apply_columns_settings h column_order (Some (vs1 @ x # vs2)) w))) =
           target_view_columns h column_order (Some (vs1 @ vs2)) w"
    unfolding e by (rule target_view_columns_first_in_view[OF assms(1) assms(4)])
  have g: "set (view_ui (self (apply_columns_settings h column_order (Some (vs1 @ x # vs2)) w)))
           \<subseteq> set (target_view_columns h column_order (Some (vs1 @ vs2)) w)
             \<union> set (view_ui (self w))"
    unfolding e by (rule view_ui_apply_columns_settings_subset)
  show ?thesis
    by (rule conjI[OF a conjI[OF b conjI[OF c conjI[OF d conjI[OF e conjI[OF f g]]]]]])
qed

text \<open>In the example view: two spellings of type and name, and the entry \<^verbatim>\<open>bogus\<close>, which the
  registry does not have.\<close>

theorem visible_columns_matched_in_lower_case_witness:
  "all_view_columns_hash (self example_world) =
     all_view_columns_hash (setup_view_columns example_helpers example_new_view)
   \<and> g_ascii_strdown ''bogus''
        \<notin> set (map (\<lambda>col. g_ascii_strdown (name col)) (nautilus_get_all_columns example_helpers))
   \<and> map g_ascii_strdown [''TYPE'', ''Name''] = map g_ascii_strdown [''Type'', ''name'']
   \<and> distinct (map name (nautilus_sort_columns example_helpers
        (nautilus_get_columns_for_file example_helpers (directory_as_file example_world))
        (Some [''type'', ''name''])))
   \<and> target_view_columns example_helpers (Some [''type'', ''name''])
        (Some [''Type'', ''name'']) example_world =
      [example_type_column, example_name_column]
   \<and> take 2 (view_ui (self (apply_columns_settings example_helpers (Some [''type'', ''name''])
        (Some [''TYPE'', ''Name'']) example_world))) =
      [example_type_column, example_name_column]
   \<and> take 2 (view_ui (self (apply_columns_settings example_helpers (Some [''type'', ''name''])
        (Some [''Type'', ''bogus'', ''name'']) example_world))) =
      [example_type_column, example_name_column]
   \<and> apply_columns_settings example_helpers (Some [''type'', ''name''])
        (Some [''Type'', ''bogus'', ''name'']) example_world =
      apply_columns_settings example_helpers (Some [''type'', ''name''])
        (Some [''Type'', ''name'']) example_world"
proof -
  have h1: "all_view_columns_hash (self example_world) =
              all_view_columns_hash (setup_view_columns example_helpers example_new_view)"
    by (simp add: example_world_def)
  have h2: "\<forall>col \<in> set (nautilus_get_all_columns example_helpers).
              g_ascii_strdown (name col) \<noteq> g_ascii_strdown ''bogus''"
    by (simp add: example_helpers_def example_columns_def example_strdown)
  have h3: "map g_ascii_strdown [''TYPE'', ''Name''] = map g_ascii_strdown [''Type'', ''name'']"
    by (simp add: example_strdown)
  have h4: "distinct (map name (nautilus_sort_columns example_helpers
              (nautilus_get_columns_for_file example_helpers (directory_as_file example_world))
              (Some [''type'', ''name''])))"
    by (simp add: example_sorted_columns example_columns_def)
  note t = visible_columns_matched_in_lower_case[OF h1 h2 h3 h4, of "[''Type'']" "[''name'']"]
  have absent: "g_ascii_strdown ''bogus''
        \<notin> set (map (\<lambda>col. g_ascii_strdown (name col)) (nautilus_get_all_columns example_helpers))"
    using h2 by auto
  from t have "target_view_columns example_helpers (Some [''type'', ''name''])
                 (Some [''Type'', ''name'']) example_world =
           List.map_filter
             (\<lambda>col. if g_ascii_strdown (name col)
                          \<in> insert ''name''
                              ((if nautilus_tag_manager_can_star_contents example_helpers
                                     (view_location example_world)
                                   \<or> nautilus_is_starred_directory example_helpers
                                        (view_location example_world)
                                then {''starred''} else {})
                               \<union> g_ascii_strdown ` set [''Type'', ''name''])
                     then all_view_columns_hash (self example_world) (name col) else None)
             (nautilus_sort_columns example_helpers
                (nautilus_get_columns_for_file example_helpers (directory_as_file example_world))
                (Some [''type'', ''name'']))"
    by (elim conjE)
  then have target: "target_view_columns example_helpers (Some [''type'', ''name''])
                 (Some [''Type'', ''name'']) example_world =
               [example_type_column, example_name_column]"
    by (simp add: example_sorted_columns example_cannot_star example_self example_columns_def
          example_strdown)
  from t have "take (length (target_view_columns example_helpers (Some [''type'', ''name''])
                   (Some [''Type'', ''name'']) example_world))
            (view_ui (self (apply_columns_settings example_helpers (Some [''type'', ''name''])
               (Some [''TYPE'', ''Name'']) example_world))) =
           target_view_columns example_helpers (Some [''type'', ''name''])
             (Some [''Type'', ''name'']) example_world"
    by (elim conjE)
  then have same_case:
    "take 2 (view_ui (self (apply_columns_settings example_helpers (Some [''type'', ''name''])
        (Some [''TYPE'', ''Name'']) example_world))) =
      [example_type_column, example_name_column]"
    by (simp add: target numeral_2_eq_2)
  from t have "take (length (target_view_columns example_helpers (Some [''type'', ''name''])
                   (Some ([''Type''] @ [''name''])) example_world))
            (view_ui (self (apply_columns_settings example_helpers (Some [''type'', ''name''])
               (Some ([''Type''] @ ''bogus'' # [''name''])) example_world))) =
           target_view_columns example_helpers (Some [''type'', ''name''])
             (Some ([''Type''] @ [''name''])) example_world"
    by (elim conjE)
  then have remaining:
    "take 2 (view_ui (self (apply_columns_settings example_helpers (Some [''type'', ''name''])
        (Some [''Type'', ''bogus'', ''name'']) example_world))) =
      [example_type_column, example_name_column]"
    by (simp add: target numeral_2_eq_2)
  from t have ignored:
    "apply_columns_settings example_helpers (Some [''type'', ''name''])
        (Some ([''Type''] @ ''bogus'' # [''name''])) example_world =
      apply_columns_settings example_helpers (Some [''type'', ''name''])
        (Some ([''Type''] @ [''name''])) example_world"
    by (elim conjE)
  show ?thesis
    using h1 absent h3 h4 target same_case remaining ignored by simp
qed

end
